theory Spec2Isabelle
  imports Complex_Main
begin

section \<open>Position matrices of seqlogo: data model\<close>

text \<open>
  The development embeds \<^verbatim>\<open>seqlogo/core.py\<close> (and the helper shared with the legacy
  \<^verbatim>\<open>seqLogo/core.py\<close>).  Conventions of the embedding:
  \<^item> a \<^verbatim>\<open>numpy.float64\<close> cell is a real number: arithmetic is exact, and a cell stands
    for a finite float.  Where numpy would produce \<open>inf\<close> or \<open>NaN\<close>, the model either
    says what follows from it (a zero row total in \<^verbatim>\<open>pfm2ppm\<close>) or holds a cell without
    meaning (\<open>log2\<close> of a non-positive number) and the theorems exclude the input; no
    proof relies on HOL's own values there (\<open>x / 0 = 0\<close>, \<open>ln 0 = 0\<close>).  There are two
    exceptions.  The legacy helper \<^verbatim>\<open>__proportion\<close> has the non-finite case as its whole
    purpose, so it is modelled over floats with explicit infinities and NaN.  The
    product \<^verbatim>\<open>ppm * 100\<close> of \<^verbatim>\<open>ppm2pfm\<close> and \<^verbatim>\<open>Pm.counts\<close> is cast to an integer, so its
    rounding to a double is written out;
  \<^item> a \<^verbatim>\<open>pandas.DataFrame\<close> is a record of its row labels, its column labels and its
    cells (row-major), because pandas aligns binary operations on labels and
    \<^verbatim>\<open>idxmax\<close> answers with labels;
  \<^item> every \<^verbatim>\<open>raise\<close> is a value of the type \<open>error\<close>; Python raises \<^verbatim>\<open>ValueError\<close> for
    most of them, the constructors keep the raise sites apart;
  \<^item> \<^verbatim>\<open>_init_pm\<close> takes an array or a data frame.  A file name is the business of the
    file-reading collaborator and an existing \<^verbatim>\<open>Pm\<close> instance is not modelled;
  \<^item> the matrices given to \<^verbatim>\<open>CompletePM\<close> are arrays, the raw tables of the
    specification.  Of an array \<^verbatim>\<open>_submit_pm\<close> makes a new data frame, so that every frame
    the instance holds is its own and instances are values.  A data frame handed in by
    the caller is the very object \<^verbatim>\<open>_init_pm\<close> relabels in place and the instance then
    shares; that takes a heap to describe and is left out.
\<close>

datatype error =
    TypeError                 \<comment> \<open>\<^verbatim>\<open>_submit_pm\<close> on an unsupported source, \<^verbatim>\<open>len(None)\<close>,
                                  \<^verbatim>\<open>DataFrame[:, :-1]\<close>, \<^verbatim>\<open>''.join\<close> of non-strings\<close>
  | KeyError string           \<comment> \<open>\<^verbatim>\<open>utils._IDX_LETTERS[alphabet_type]\<close> without that key\<close>
  | AttributeError string     \<comment> \<open>attribute missing on a \<^verbatim>\<open>DataFrame\<close> or on \<^verbatim>\<open>None\<close>\<close>
  | AssertionError            \<comment> \<open>the \<^verbatim>\<open>assert\<close> of \<^verbatim>\<open>_check_background\<close>\<close>
  | LengthMismatch            \<comment> \<open>pandas: new column labels, or a broadcast vector, of the wrong length\<close>
  | ShapeError nat            \<comment> \<open>\<^verbatim>\<open>'... alphabet selected, but PM is not N rows long'\<close>\<close>
  | NormalizationError        \<comment> \<open>\<^verbatim>\<open>'All or some PPM columns do not add to 1'\<close>\<close>
  | ConfigurationError string \<comment> \<open>\<^verbatim>\<open>'alphabet type (..) not supported by default backgrounds'\<close>\<close>
  | CustomAlphabetError       \<comment> \<open>\<^verbatim>\<open>'custom' alphabet_type selected, but no alphabet was supplied\<close>\<close>
  | BackgroundTypeError       \<comment> \<open>\<^verbatim>\<open>'background must be an iterable ... or constant'\<close>\<close>
  | InstanceTypeError         \<comment> \<open>\<^verbatim>\<open>'provided position matrix must be of type Pm, ...'\<close>\<close>
  | PseudocountError          \<comment> \<open>\<^verbatim>\<open>'pseudocount must be the same length as sequence or a constant'\<close>\<close>
  | ArgmaxError               \<comment> \<open>pandas: \<^verbatim>\<open>idxmax\<close> over rows that have no cell\<close>

datatype label = IntL nat | ChrL char

type_synonym ndarray = "real list list"

record dataframe =
  index :: "label list"
  columns :: "label list"
  vals :: "real list list"

datatype pm_input = NdArray ndarray | Frame dataframe | Unsupported

text \<open>\<^verbatim>\<open>shape[0]\<close> and \<^verbatim>\<open>shape[1]\<close> of a data frame are the numbers of its labels.\<close>

definition shape0 :: "dataframe \<Rightarrow> nat" where
  "shape0 d = length (index d)"

definition shape1 :: "dataframe \<Rightarrow> nat" where
  "shape1 d = length (columns d)"

text \<open>
  \<^verbatim>\<open>pd.DataFrame(data = array)\<close>: both axes get a \<^verbatim>\<open>RangeIndex\<close>.  The array is a
  rectangular list of rows; its column count is read off its first row.
\<close>

definition range_index :: "nat \<Rightarrow> label list" where
  "range_index n = map IntL [0..<n]"

definition DataFrame :: "ndarray \<Rightarrow> dataframe" where
  "DataFrame t =
     \<lparr>index = range_index (length t),
      columns = range_index (case t of [] \<Rightarrow> 0 | r # _ \<Rightarrow> length r),
      vals = t\<rparr>"

text \<open>A frame is well formed when its cells fit its labels.\<close>

definition wf_frame :: "dataframe \<Rightarrow> bool" where
  "wf_frame d \<longleftrightarrow>
     length (vals d) = length (index d) \<and>
     list_all (\<lambda>r. length r = length (columns d)) (vals d)"

text \<open>\<^verbatim>\<open>DataFrame.transpose()\<close>: the axes swap, cell \<open>(i, j)\<close> moves to \<open>(j, i)\<close>.\<close>

definition transpose_df :: "dataframe \<Rightarrow> dataframe" where
  "transpose_df d =
     \<lparr>index = columns d,
      columns = index d,
      vals = map (\<lambda>j. map (\<lambda>r. r ! j) (vals d)) [0..<length (columns d)]\<rparr>"

text \<open>\<^verbatim>\<open>pm.sum(axis=1)\<close>, the values of the resulting series.\<close>

definition row_sums :: "dataframe \<Rightarrow> real list" where
  "row_sums d = map sum_list (vals d)"

text \<open>
  \<^verbatim>\<open>np.allclose(a, b, rtol)\<close> with the third positional argument bound to \<^verbatim>\<open>rtol\<close> and
  numpy's default \<^verbatim>\<open>atol = 1e-08\<close>: every element satisfies
  \<open>|a - b| \<le> atol + rtol * |b|\<close>.
\<close>

definition allclose :: "real list \<Rightarrow> real \<Rightarrow> real \<Rightarrow> bool" where
  "allclose a b rtol \<longleftrightarrow> list_all (\<lambda>x. \<bar>x - b\<bar> \<le> 1 / 10 ^ 8 + rtol * \<bar>b\<bar>) a"

subsection \<open>The tables of \<^verbatim>\<open>utils\<close>\<close>

text \<open>
  \<^verbatim>\<open>seqlogo/utils.py\<close> is not among the sources, so its tables are a parameter of every
  function that reads them.
\<close>

record utils =
  IDX_LETTERS :: "string \<rightharpoonup> string"
  NA_ALPHABETS :: "string set"
  AA_ALPHABETS :: "string set"
  NA_background :: "(char \<times> real) list"
  AA_background :: "(char \<times> real) list"

text \<open>
  Modelled from the spec: the tables of \<^verbatim>\<open>utils.py\<close>, which is missing from the sources.
  The alphabets are the ones the docstrings of \<^verbatim>\<open>core.py\<close> list for each type tag; the
  nucleic-acid types share the uniform background 0.25 per symbol of \<^verbatim>\<open>ACGT\<close>; the
  amino-acid frequencies are not written anywhere in the sources and stay a parameter.
\<close>

definition utils_std :: "(char \<times> real) list \<Rightarrow> utils" where
  "utils_std aa_bg =
     \<lparr>IDX_LETTERS =
        [''DNA'' \<mapsto> ''ACGT'',
         ''reduced DNA'' \<mapsto> ''ACGTN-'',
         ''ambig DNA'' \<mapsto> ''ACGTRYSWKMBDHVN-'',
         ''RNA'' \<mapsto> ''ACGU'',
         ''reduced RNA'' \<mapsto> ''ACGUN-'',
         ''ambig RNA'' \<mapsto> ''ACGURYSWKMBDHVN-'',
         ''AA'' \<mapsto> ''ACDEFGHIKLMNPQRSTVWY'',
         ''reduced AA'' \<mapsto> ''ACDEFGHIKLMNPQRSTVWYX*-'',
         ''ambig AA'' \<mapsto> ''ACDEFGHIKLMNOPQRSTUVWYBJZX*-''],
      NA_ALPHABETS =
        {''DNA'', ''reduced DNA'', ''ambig DNA'', ''RNA'', ''reduced RNA'', ''ambig RNA''},
      AA_ALPHABETS = {''AA'', ''reduced AA'', ''ambig AA''},
      NA_background = map (\<lambda>c. (c, 1 / 4)) ''ACGT'',
      AA_background = aa_bg\<rparr>"

section \<open>Orientation and validation: \<^verbatim>\<open>_init_pm\<close>\<close>

text \<open>\<^verbatim>\<open>_submit_pm\<close>, the single-dispatch on the type of the source.\<close>

fun submit_pm :: "pm_input \<Rightarrow> error + dataframe" where
  "submit_pm (NdArray t) = Inr (DataFrame t)"
| "submit_pm (Frame d) = Inr d"
| "submit_pm Unsupported = Inl TypeError"

text \<open>
  The symbols both \<^verbatim>\<open>len(...)\<close> (lines 54-57) and \<^verbatim>\<open>list(...)\<close> (lines 66-69) read:
  \<^verbatim>\<open>utils._IDX_LETTERS[alphabet_type]\<close>, or the caller's string for \<^verbatim>\<open>'custom'\<close>.
\<close>

definition alphabet_letters :: "utils \<Rightarrow> string \<Rightarrow> string option \<Rightarrow> error + string" where
  "alphabet_letters u alphabet_type alphabet =
     (if alphabet_type \<noteq> ''custom'' then
        (case IDX_LETTERS u alphabet_type of
           None \<Rightarrow> Inl (KeyError alphabet_type)
         | Some s \<Rightarrow> Inr s)
      else (case alphabet of None \<Rightarrow> Inl TypeError | Some s \<Rightarrow> Inr s))"

text \<open>Lines 59-64: accept, transpose, or raise.\<close>

definition orient :: "utils \<Rightarrow> string \<Rightarrow> nat \<Rightarrow> dataframe \<Rightarrow> error + dataframe" where
  "orient u alphabet_type ex_alph_len pm =
     (if shape1 pm \<noteq> ex_alph_len then
        if alphabet_type \<in> NA_ALPHABETS u \<or> alphabet_type \<in> AA_ALPHABETS u
           \<or> alphabet_type = ''custom'' then
          if shape0 pm = ex_alph_len then Inr (transpose_df pm)
          else Inl (ShapeError ex_alph_len)
        else Inr pm
      else Inr pm)"

text \<open>
  Lines 66-69, \<^verbatim>\<open>pm.columns = list(...)\<close>: pandas refuses a list whose length is not the
  column count.
\<close>

definition set_columns :: "string \<Rightarrow> dataframe \<Rightarrow> error + dataframe" where
  "set_columns letters pm =
     (if length letters \<noteq> shape1 pm then Inl LengthMismatch
      else Inr (pm\<lparr>columns := map ChrL letters\<rparr>))"

text \<open>Lines 71-75: the row-sum check of a probability matrix.\<close>

definition check_normalization :: "string \<Rightarrow> dataframe \<Rightarrow> error + dataframe" where
  "check_normalization pm_type pm =
     (if pm_type = ''ppm'' \<and> \<not> allclose (row_sums pm) 1 (1 / 10 ^ 10)
      then Inl NormalizationError else Inr pm)"

definition init_pm ::
  "utils \<Rightarrow> pm_input \<Rightarrow> string \<Rightarrow> string \<Rightarrow> string option \<Rightarrow> error + dataframe" where
  "init_pm u pm_matrix pm_type alphabet_type alphabet =
     (case submit_pm pm_matrix of
        Inl e \<Rightarrow> Inl e
      | Inr pm \<Rightarrow>
          (case alphabet_letters u alphabet_type alphabet of
             Inl e \<Rightarrow> Inl e
           | Inr letters \<Rightarrow>
               (case orient u alphabet_type (length letters) pm of
                  Inl e \<Rightarrow> Inl e
                | Inr pm1 \<Rightarrow>
                    (case set_columns letters pm1 of
                       Inl e \<Rightarrow> Inl e
                     | Inr pm2 \<Rightarrow> check_normalization pm_type pm2))))"

section \<open>The legacy information content: \<^verbatim>\<open>__proportion\<close> and \<^verbatim>\<open>_row_wise_ic\<close>\<close>

text \<open>
  A \<^verbatim>\<open>numpy.float64\<close> with its non-finite values.  Finite arithmetic is exact (rounding
  and overflow are not modelled); the non-finite cases follow IEEE 754 as numpy
  implements it: \<open>log2 0 = -inf\<close>, \<open>log2\<close> of a negative number is NaN,
  \<open>0 * inf\<close> and \<open>inf - inf\<close> are NaN, and every comparison with NaN is false.
\<close>

datatype npfloat = Fin real | PInf | NInf | NaN

fun np_log2 :: "npfloat \<Rightarrow> npfloat" where
  "np_log2 (Fin x) = (if 0 < x then Fin (log 2 x) else if x = 0 then NInf else NaN)"
| "np_log2 PInf = PInf"
| "np_log2 NInf = NaN"
| "np_log2 NaN = NaN"

fun np_mul :: "npfloat \<Rightarrow> npfloat \<Rightarrow> npfloat" where
  "np_mul (Fin x) (Fin y) = Fin (x * y)"
| "np_mul NaN _ = NaN"
| "np_mul _ NaN = NaN"
| "np_mul (Fin x) PInf = (if 0 < x then PInf else if x < 0 then NInf else NaN)"
| "np_mul (Fin x) NInf = (if 0 < x then NInf else if x < 0 then PInf else NaN)"
| "np_mul PInf (Fin y) = (if 0 < y then PInf else if y < 0 then NInf else NaN)"
| "np_mul NInf (Fin y) = (if 0 < y then NInf else if y < 0 then PInf else NaN)"
| "np_mul PInf PInf = PInf"
| "np_mul PInf NInf = NInf"
| "np_mul NInf PInf = NInf"
| "np_mul NInf NInf = PInf"

fun np_add :: "npfloat \<Rightarrow> npfloat \<Rightarrow> npfloat" where
  "np_add (Fin x) (Fin y) = Fin (x + y)"
| "np_add NaN _ = NaN"
| "np_add _ NaN = NaN"
| "np_add PInf NInf = NaN"
| "np_add NInf PInf = NaN"
| "np_add PInf _ = PInf"
| "np_add _ PInf = PInf"
| "np_add NInf _ = NInf"
| "np_add _ NInf = NInf"

text \<open>Python's \<^verbatim>\<open>a > b\<close> on floats.\<close>

fun np_gt :: "npfloat \<Rightarrow> npfloat \<Rightarrow> bool" where
  "np_gt NaN _ = False"
| "np_gt _ NaN = False"
| "np_gt (Fin x) (Fin y) = (y < x)"
| "np_gt PInf PInf = False"
| "np_gt PInf _ = True"
| "np_gt _ PInf = False"
| "np_gt NInf _ = False"
| "np_gt (Fin x) NInf = True"

text \<open>\<^verbatim>\<open>np.sum\<close> of one row, accumulated from \<open>0.0\<close>.\<close>

definition np_sum :: "npfloat list \<Rightarrow> npfloat" where
  "np_sum xs = foldl np_add (Fin 0) xs"

definition is_finite :: "npfloat \<Rightarrow> bool" where
  "is_finite x = (case x of Fin _ \<Rightarrow> True | _ \<Rightarrow> False)"

text \<open>
  \<^verbatim>\<open>__proportion\<close> (the same text in both packages), applied to one cell by
  \<^verbatim>\<open>np.vectorize\<close>.
\<close>

definition proportion :: "npfloat \<Rightarrow> npfloat" where
  "proportion prob =
     (if np_gt prob (Fin 0) then np_mul prob (np_log2 prob) else Fin 0)"

text \<open>\<^verbatim>\<open>_row_wise_ic\<close>: \<^verbatim>\<open>2 + np.sum(__proportion(row), axis = 1)\<close>, one value per row.\<close>

definition row_wise_ic :: "npfloat list list \<Rightarrow> npfloat list" where
  "row_wise_ic row = map (\<lambda>r. np_add (Fin 2) (np_sum (map proportion r))) row"

section \<open>Background resolution: \<^verbatim>\<open>_check_background\<close>\<close>

text \<open>
  A background argument is a number (\<^verbatim>\<open>numbers.Real\<close>), a collection of numbers, or
  any other object.  The first argument of \<^verbatim>\<open>_check_background\<close> matters through its
  class only: a \<^verbatim>\<open>Pm\<close> instance (read through its \<^verbatim>\<open>alphabet_type\<close> and \<^verbatim>\<open>_alphabet\<close>), a
  data frame, or anything else.
\<close>

datatype background = Scalar real | Vector "real list" | NotNumeric

datatype subject = PmObj string "string option" | FrameObj | OtherObj

text \<open>
  The property \<^verbatim>\<open>Pm.alphabet\<close>: the stored string, else the table entry of a
  nucleic-acid or amino-acid type, else the error of \<^verbatim>\<open>'custom'\<close>, else \<^verbatim>\<open>None\<close>.
\<close>

definition Pm_alphabet :: "utils \<Rightarrow> string \<Rightarrow> string option \<Rightarrow> error + string option" where
  "Pm_alphabet u alphabet_type alphabet =
     (case alphabet of
        Some a \<Rightarrow> Inr (Some a)
      | None \<Rightarrow>
          if alphabet_type \<in> NA_ALPHABETS u \<or> alphabet_type \<in> AA_ALPHABETS u then
            (case IDX_LETTERS u alphabet_type of
               None \<Rightarrow> Inl (KeyError alphabet_type)
             | Some s \<Rightarrow> Inr (Some s))
          else if alphabet_type = ''custom'' then Inl CustomAlphabetError
          else Inr None)"

text \<open>
  Lines 578-581, reached with a built-in table only: the \<^verbatim>\<open>assert\<close> on the lengths,
  then the values of the dictionary as an array.
\<close>

definition builtin_background ::
  "string option \<Rightarrow> (char \<times> real) list \<Rightarrow> error + background" where
  "builtin_background alph bg =
     (case alph of
        None \<Rightarrow> Inl TypeError
      | Some a \<Rightarrow>
          if length a = length bg then Inr (Vector (map snd bg)) else Inl AssertionError)"

definition check_background ::
  "utils \<Rightarrow> subject \<Rightarrow> background option \<Rightarrow> string \<Rightarrow> string option \<Rightarrow> error + background" where
  "check_background u pm bg alphabet_type alphabet =
     (case bg of
        Some b \<Rightarrow>
          (case b of
             Scalar x \<Rightarrow> Inr b
           | Vector v \<Rightarrow> Inr b
           | NotNumeric \<Rightarrow> Inl BackgroundTypeError)
      | None \<Rightarrow>
          (case pm of
             PmObj pm_alphabet_type pm_alphabet \<Rightarrow>
               (case Pm_alphabet u pm_alphabet_type pm_alphabet of
                  Inl e \<Rightarrow> Inl e
                | Inr alph \<Rightarrow>
                    if pm_alphabet_type \<in> NA_ALPHABETS u then
                      builtin_background alph (NA_background u)
                    else if pm_alphabet_type \<in> AA_ALPHABETS u then
                      builtin_background alph (AA_background u)
                    else Inl (ConfigurationError pm_alphabet_type))
           | FrameObj \<Rightarrow>
               (case (case alphabet of
                        Some a \<Rightarrow> Inr a
                      | None \<Rightarrow>
                          (case IDX_LETTERS u alphabet_type of
                             None \<Rightarrow> Inl (KeyError alphabet_type)
                           | Some s \<Rightarrow> Inr s)) of
                  Inl e \<Rightarrow> Inl e
                | Inr alph \<Rightarrow>
                    if alphabet_type \<in> NA_ALPHABETS u then
                      builtin_background (Some alph) (NA_background u)
                    else if alphabet_type \<in> AA_ALPHABETS u then
                      builtin_background (Some alph) (AA_background u)
                    else Inl (AttributeError ''alphabet_type''))
           | OtherObj \<Rightarrow>
               (case (case alphabet of
                        Some a \<Rightarrow> Inr a
                      | None \<Rightarrow>
                          (case IDX_LETTERS u alphabet_type of
                             None \<Rightarrow> Inl (KeyError alphabet_type)
                           | Some s \<Rightarrow> Inr s)) of
                  Inl e \<Rightarrow> Inl e
                | Inr alph \<Rightarrow> Inl InstanceTypeError)))"

section \<open>The conversions\<close>

text \<open>
  The conversions are modelled on data frames, which is what \<^verbatim>\<open>CompletePM\<close> hands them.
  Each ends in \<^verbatim>\<open>_init_pm(..., pm_type = ...)\<close> without an alphabet, hence with the
  default \<^verbatim>\<open>alphabet_type = 'DNA'\<close>.
\<close>

datatype pseudocount = PcScalar real | PcVector "real list"

definition map_cells :: "(real \<Rightarrow> real) \<Rightarrow> dataframe \<Rightarrow> dataframe" where
  "map_cells f d = d\<lparr>vals := map (map f) (vals d)\<rparr>"

text \<open>
  \<^verbatim>\<open>frame + array\<close> and \<^verbatim>\<open>frame - array\<close> for a one-dimensional array: pandas pairs the
  array with the columns and refuses another length.
\<close>

definition broadcast_cols ::
  "(real \<Rightarrow> real \<Rightarrow> real) \<Rightarrow> dataframe \<Rightarrow> real list \<Rightarrow> error + dataframe" where
  "broadcast_cols f d v =
     (if length v \<noteq> shape1 d then Inl LengthMismatch
      else Inr (d\<lparr>vals := map (\<lambda>r. map2 f r v) (vals d)\<rparr>))"

text \<open>The operand \<^verbatim>\<open>np.log2(background)\<close> combined with a frame by \<open>f\<close>.\<close>

definition with_log2_background ::
  "(real \<Rightarrow> real \<Rightarrow> real) \<Rightarrow> dataframe \<Rightarrow> background \<Rightarrow> error + dataframe" where
  "with_log2_background f d bg =
     (case bg of
        Scalar b \<Rightarrow> Inr (map_cells (\<lambda>x. f x (log 2 b)) d)
      | Vector v \<Rightarrow> broadcast_cols f d (map (log 2) v)
      | NotNumeric \<Rightarrow> Inl TypeError)"

text \<open>
  Lines 599-603 and 622-626.  A pseudocount that is not a number makes Python evaluate
  \<^verbatim>\<open>ppm.length\<close>, which a data frame does not have.
\<close>

definition resolve_pseudocount :: "pseudocount option \<Rightarrow> error + real" where
  "resolve_pseudocount pc =
     (case pc of
        None \<Rightarrow> Inr (1 / 10 ^ 10)
      | Some (PcScalar c) \<Rightarrow> Inr c
      | Some (PcVector v) \<Rightarrow> Inl (AttributeError ''length''))"

definition ppm2pwm ::
  "utils \<Rightarrow> dataframe \<Rightarrow> background option \<Rightarrow> pseudocount option \<Rightarrow> error + dataframe" where
  "ppm2pwm u ppm bg pc =
     (case check_background u FrameObj bg ''DNA'' None of
        Inl e \<Rightarrow> Inl e
      | Inr b \<Rightarrow>
          (case resolve_pseudocount pc of
             Inl e \<Rightarrow> Inl e
           | Inr c \<Rightarrow>
               (case with_log2_background (-) (map_cells (\<lambda>x. log 2 (x + c)) ppm) b of
                  Inl e \<Rightarrow> Inl e
                | Inr d \<Rightarrow> init_pm u (Frame d) ''pwm'' ''DNA'' None)))"

definition pwm2ppm ::
  "utils \<Rightarrow> dataframe \<Rightarrow> background option \<Rightarrow> pseudocount option \<Rightarrow> error + dataframe" where
  "pwm2ppm u pwm bg pc =
     (case check_background u FrameObj bg ''DNA'' None of
        Inl e \<Rightarrow> Inl e
      | Inr b \<Rightarrow>
          (case resolve_pseudocount pc of
             Inl e \<Rightarrow> Inl e
           | Inr c \<Rightarrow>
               (case with_log2_background (+) pwm b of
                  Inl e \<Rightarrow> Inl e
                | Inr d \<Rightarrow>
                    init_pm u (Frame (map_cells (\<lambda>x. 2 powr x - c) d)) ''ppm'' ''DNA'' None)))"

text \<open>
  \<^verbatim>\<open>ppm * 100\<close> is a product of doubles: the exact product, rounded to the nearest
  double, ties to the even significand.  The rounding is written out here, and here
  only, because the cast that follows is not continuous: the double nearest to 0.29,
  times 100, is 28.999999999999996 and not 29.  A double has a significand of 53 bits;
  below \<open>2 ^ -1022\<close> the spacing stays that of the smallest normal numbers.  Overflow to
  infinity is not modelled.
\<close>

definition round_half_even :: "real \<Rightarrow> int" where
  "round_half_even z =
     (let f = \<lfloor>z\<rfloor>; r = z - of_int f
      in if r < 1 / 2 then f else if 1 / 2 < r then f + 1 else if even f then f else f + 1)"

definition fl64 :: "real \<Rightarrow> real" where
  "fl64 x =
     (if x = 0 then 0
      else (let e = max \<lfloor>log 2 \<bar>x\<bar>\<rfloor> (- 1022); ulp = 2 powr (of_int e - 52)
            in of_int (round_half_even (x / ulp)) * ulp))"

text \<open>The numbers a cell can hold: the reals that are doubles.\<close>

definition is_float64 :: "real \<Rightarrow> bool" where
  "is_float64 x \<longleftrightarrow> fl64 x = x"

text \<open>
  \<^verbatim>\<open>astype(np.int64)\<close> of a float: the fractional part is dropped.  A float outside the
  range of \<^verbatim>\<open>int64\<close> has no defined cast in C; numpy on x86-64 answers \<open>- 2 ^ 63\<close>.
\<close>

definition astype_int64 :: "real \<Rightarrow> int" where
  "astype_int64 x =
     (let t = (if 0 \<le> x then \<lfloor>x\<rfloor> else \<lceil>x\<rceil>)
      in if - (2 ^ 63) \<le> t \<and> t < 2 ^ 63 then t else - (2 ^ 63))"

definition ppm2pfm :: "utils \<Rightarrow> dataframe \<Rightarrow> error + dataframe" where
  "ppm2pfm u ppm =
     init_pm u (Frame (map_cells (\<lambda>x. of_int (astype_int64 (fl64 (x * 100)))) ppm))
       ''pfm'' ''DNA'' None"

text \<open>
  \<^verbatim>\<open>(pfm.T / pfm.sum(axis = 1)).T\<close>: the series of row totals is aligned with the columns
  of the transposed frame, which carry the same labels, so every cell is divided by the
  total of its row.  A row whose total is 0 becomes \<open>NaN\<close> or \<open>inf\<close> in numpy; such a
  cell keeps \<^verbatim>\<open>np.allclose\<close> from succeeding, so the conversion raises whenever
  \<^verbatim>\<open>_init_pm\<close> gets as far as the row-sum check.
\<close>

definition div_rows :: "dataframe \<Rightarrow> dataframe" where
  "div_rows d = d\<lparr>vals := map (\<lambda>r. map (\<lambda>x. x / sum_list r) r) (vals d)\<rparr>"

definition has_zero_total :: "dataframe \<Rightarrow> bool" where
  "has_zero_total d \<longleftrightarrow> list_ex (\<lambda>r. r \<noteq> [] \<and> sum_list r = 0) (vals d)"

definition pfm2ppm :: "utils \<Rightarrow> dataframe \<Rightarrow> error + dataframe" where
  "pfm2ppm u pfm =
     (case init_pm u (Frame (div_rows pfm)) ''ppm'' ''DNA'' None of
        Inl e \<Rightarrow> Inl e
      | Inr d \<Rightarrow> if has_zero_total pfm then Inl NormalizationError else Inr d)"

definition pfm2pwm ::
  "utils \<Rightarrow> dataframe \<Rightarrow> background option \<Rightarrow> pseudocount option \<Rightarrow> error + dataframe" where
  "pfm2pwm u pfm bg pc =
     (case pfm2ppm u pfm of
        Inl e \<Rightarrow> Inl e
      | Inr p \<Rightarrow>
          (case ppm2pwm u p bg pc of
             Inl e \<Rightarrow> Inl e
           | Inr w \<Rightarrow> init_pm u (Frame w) ''pwm'' ''DNA'' None))"

definition pwm2pfm ::
  "utils \<Rightarrow> dataframe \<Rightarrow> background option \<Rightarrow> pseudocount option \<Rightarrow> error + dataframe" where
  "pwm2pfm u pwm bg pc =
     (case pwm2ppm u pwm bg pc of
        Inl e \<Rightarrow> Inl e
      | Inr p \<Rightarrow>
          (case ppm2pfm u p of
             Inl e \<Rightarrow> Inl e
           | Inr f \<Rightarrow> init_pm u (Frame f) ''pfm'' ''DNA'' None))"

section \<open>Derived statistics\<close>

text \<open>
  The position of the first maximum of a row, which is what \<^verbatim>\<open>idxmax\<close> reports for a
  row of finite numbers.
\<close>

fun argmax :: "real list \<Rightarrow> nat" where
  "argmax [] = 0"
| "argmax [x] = 0"
| "argmax (x # y # ys) =
     (let j = argmax (y # ys) in if (y # ys) ! j \<le> x then 0 else Suc j)"

text \<open>
  \<^verbatim>\<open>Pm._generate_consensus\<close> on a frame: \<^verbatim>\<open>''.join(pm.idxmax(axis=1))\<close>.  The labels
  joined must be strings.
\<close>

fun label_char :: "label \<Rightarrow> error + char" where
  "label_char (ChrL c) = Inr c"
| "label_char (IntL n) = Inl TypeError"

fun join_labels :: "label list \<Rightarrow> error + string" where
  "join_labels [] = Inr []"
| "join_labels (l # ls) =
     (case label_char l of
        Inl e \<Rightarrow> Inl e
      | Inr c \<Rightarrow> (case join_labels ls of Inl e \<Rightarrow> Inl e | Inr cs \<Rightarrow> Inr (c # cs)))"

definition generate_consensus :: "dataframe \<Rightarrow> error + string" where
  "generate_consensus pm =
     (if columns pm = [] \<and> vals pm \<noteq> [] then Inl ArgmaxError
      else join_labels (map (\<lambda>r. columns pm ! argmax r) (vals pm)))"

text \<open>
  \<^verbatim>\<open>(a * b).sum(axis=1)\<close> for two frames.  pandas multiplies cells that carry the same
  row label and the same column label; a label that only one frame has gives \<open>NaN\<close>
  cells, which \<^verbatim>\<open>sum\<close> skips.  The rows of the result are the labels of \<open>a\<close> followed
  by the labels only \<open>b\<close> has (for range indexes this is the sorted union pandas
  builds).  Labels are taken to be distinct within a frame, as alphabet symbols and
  range indexes are.
\<close>

definition lookup_row :: "dataframe \<Rightarrow> label \<Rightarrow> real list option" where
  "lookup_row d l = map_of (zip (index d) (vals d)) l"

definition aligned_dot :: "label list \<Rightarrow> real list \<Rightarrow> label list \<Rightarrow> real list \<Rightarrow> real" where
  "aligned_dot ca ra cb rb =
     sum_list (map (\<lambda>(c, x). case map_of (zip cb rb) c of None \<Rightarrow> 0 | Some y \<Rightarrow> x * y)
                   (zip ca ra))"

definition mul_sum :: "dataframe \<Rightarrow> dataframe \<Rightarrow> real list" where
  "mul_sum a b =
     map (\<lambda>l. case (lookup_row a l, lookup_row b l) of
                 (Some ra, Some rb) \<Rightarrow> aligned_dot (columns a) ra (columns b) rb
               | _ \<Rightarrow> 0)
         (index a @ filter (\<lambda>l. l \<notin> set (index a)) (index b))"

section \<open>Reconciliation: \<^verbatim>\<open>CompletePM._update_pm\<close>\<close>

text \<open>
  The attributes of a \<^verbatim>\<open>CompletePM\<close> instance.  \<^verbatim>\<open>default_pm\<close> is one of the three
  attribute names the class documents.
\<close>

datatype pm_kind = PFM | PPM | PWM

record cpm =
  self_pfm :: "dataframe option"
  self_ppm :: "dataframe option"
  self_pwm :: "dataframe option"
  self_width :: "nat option"
  self_weight :: "real list option"
  self_counts :: "dataframe option"
  self_consensus :: "string option"
  self_ic :: "real list option"
  self_background :: "background option"
  self_pseudocount :: pseudocount
  self_alphabet_type :: string
  self_alphabet :: "string option"
  self_default_pm :: pm_kind

text \<open>The property \<^verbatim>\<open>_get_pm\<close> of \<^verbatim>\<open>CompletePM\<close>.\<close>

definition get_pm :: "cpm \<Rightarrow> dataframe option" where
  "get_pm s = (case self_default_pm s of
                 PFM \<Rightarrow> self_pfm s | PPM \<Rightarrow> self_ppm s | PWM \<Rightarrow> self_pwm s)"

text \<open>
  A statement of the method body maps the instance to the instance it leaves behind,
  together with the exception it raised, if any.  Statements run in sequence until one
  raises.
\<close>

type_synonym stmt = "cpm \<Rightarrow> error option \<times> cpm"

fun run :: "stmt list \<Rightarrow> stmt" where
  "run [] s = (None, s)"
| "run (p # ps) s = (case p s of (Some e, s') \<Rightarrow> (Some e, s') | (None, s') \<Rightarrow> run ps s')"

definition when_stmt :: "bool \<Rightarrow> stmt \<Rightarrow> stmt" where
  "when_stmt c p s = (if c then p s else (None, s))"

text \<open>\<^verbatim>\<open>self.attr = expr\<close>: nothing is stored when the expression raises.\<close>

definition assign :: "(cpm \<Rightarrow> error + 'a) \<Rightarrow> ('a \<Rightarrow> cpm \<Rightarrow> cpm) \<Rightarrow> stmt" where
  "assign expr store s = (case expr s of Inl e \<Rightarrow> (Some e, s) | Inr v \<Rightarrow> (None, store v s))"

text \<open>An attribute that must hold a frame; \<^verbatim>\<open>None\<close> has none of a frame's attributes.\<close>

definition frame_of :: "dataframe option \<Rightarrow> (dataframe \<Rightarrow> error + 'a) \<Rightarrow> error + 'a" where
  "frame_of d f = (case d of None \<Rightarrow> Inl (AttributeError ''NoneType'') | Some x \<Rightarrow> f x)"

text \<open>
  Lines 823-826.  The canonical matrix is a data frame, and indexing a data frame with
  \<^verbatim>\<open>[:, :-1]\<close> raises in pandas (a \<^verbatim>\<open>TypeError\<close> or an \<^verbatim>\<open>InvalidIndexError\<close>, depending on
  the version): a pair of slices is a key for a numpy array, not for a frame.
\<close>

definition compute_weight :: "cpm \<Rightarrow> error + real list" where
  "compute_weight s =
     (if self_alphabet_type s \<notin> {''DNA'', ''RNA'', ''AA''} then Inl TypeError
      else (case self_width s of
              None \<Rightarrow> Inl TypeError
            | Some w \<Rightarrow> Inr (replicate w 1)))"

text \<open>Lines 820-822.\<close>

definition check_pseudocount :: stmt where
  "check_pseudocount s =
     (case self_pseudocount s of
        PcScalar c \<Rightarrow> (None, s)
      | PcVector v \<Rightarrow>
          if Some (length v) \<noteq> self_width s then (Some PseudocountError, s) else (None, s))"

text \<open>Line 830, \<^verbatim>\<open>(self.ppm * self.pwm).sum(axis=1)\<close>.\<close>

definition compute_ic :: "cpm \<Rightarrow> error + real list" where
  "compute_ic s =
     (case (self_ppm s, self_pwm s) of
        (Some p, Some w) \<Rightarrow> Inr (mul_sum p w)
      | _ \<Rightarrow> Inl TypeError)"

text \<open>
  Line 831: an expression statement whose value is dropped; only the exceptions of
  \<^verbatim>\<open>pwm2ppm\<close> are visible.
\<close>

definition recheck_pwm :: "utils \<Rightarrow> stmt" where
  "recheck_pwm u s =
     (case frame_of (self_pwm s)
             (\<lambda>w. pwm2ppm u w (self_background s) (Some (self_pseudocount s))) of
        Inl e \<Rightarrow> (Some e, s)
      | Inr _ \<Rightarrow> (None, s))"

text \<open>
  Lines 784-798: the arrays the caller provides are oriented and stored, each as a new
  data frame.
\<close>

definition set_supplied ::
  "utils \<Rightarrow> ndarray option \<Rightarrow> ndarray option \<Rightarrow> ndarray option \<Rightarrow>
   string \<Rightarrow> string option \<Rightarrow> stmt list" where
  "set_supplied u pfm ppm pwm atype alphabet =
     [when_stmt (pfm \<noteq> None)
        (assign (\<lambda>s. init_pm u (NdArray (the pfm)) ''pfm'' atype alphabet)
                (\<lambda>d s. s\<lparr>self_pfm := Some d\<rparr>)),
      when_stmt (ppm \<noteq> None)
        (assign (\<lambda>s. init_pm u (NdArray (the ppm)) ''ppm'' atype alphabet)
                (\<lambda>d s. s\<lparr>self_ppm := Some d\<rparr>)),
      when_stmt (pwm \<noteq> None)
        (assign (\<lambda>s. init_pm u (NdArray (the pwm)) ''pwm'' atype alphabet)
                (\<lambda>d s. s\<lparr>self_pwm := Some d\<rparr>))]"

text \<open>Lines 800-817, \<^verbatim>\<open># Fill in the blanks\<close>.\<close>

definition fill_blanks ::
  "utils \<Rightarrow> ndarray option \<Rightarrow> ndarray option \<Rightarrow> ndarray option \<Rightarrow>
   background option \<Rightarrow> pseudocount option \<Rightarrow> stmt list" where
  "fill_blanks u pfm ppm pwm bg pc =
     [when_stmt (pfm \<noteq> None \<and> ppm = None)
        (assign (\<lambda>s. frame_of (self_pfm s) (pfm2ppm u))
                (\<lambda>d s. s\<lparr>self_ppm := Some d\<rparr>)),
      when_stmt (pfm \<noteq> None \<and> pwm = None)
        (assign (\<lambda>s. frame_of (self_pfm s) (\<lambda>f. pfm2pwm u f bg pc))
                (\<lambda>d s. s\<lparr>self_pwm := Some d\<rparr>)),
      when_stmt (ppm \<noteq> None \<and> pfm = None)
        (assign (\<lambda>s. frame_of (self_ppm s) (ppm2pfm u))
                (\<lambda>d s. s\<lparr>self_pfm := Some d\<rparr>)),
      when_stmt (ppm \<noteq> None \<and> pwm = None)
        (assign (\<lambda>s. frame_of (self_ppm s) (\<lambda>p. ppm2pwm u p bg pc))
                (\<lambda>d s. s\<lparr>self_pwm := Some d\<rparr>)),
      when_stmt (pwm \<noteq> None \<and> pfm = None)
        (assign (\<lambda>s. frame_of (self_pwm s) (\<lambda>w. pwm2pfm u w bg pc))
                (\<lambda>d s. s\<lparr>self_pfm := Some d\<rparr>)),
      when_stmt (pwm \<noteq> None \<and> ppm = None)
        (assign (\<lambda>s. frame_of (self_pwm s) (\<lambda>w. pwm2ppm u w bg pc))
                (\<lambda>d s. s\<lparr>self_ppm := Some d\<rparr>))]"

text \<open>
  Lines 819-831: width, pseudocount check, weight, counts, consensus, background,
  information content, and the closing \<^verbatim>\<open>pwm2ppm\<close> expression.  The background is
  resolved by \<^verbatim>\<open>_check_background(self)\<close>, that is without a background argument.
\<close>

definition derive_statistics :: "utils \<Rightarrow> stmt list" where
  "derive_statistics u =
     [assign (\<lambda>s. frame_of (get_pm s) (\<lambda>d. Inr (shape0 d)))
             (\<lambda>w s. s\<lparr>self_width := Some w\<rparr>),
      check_pseudocount,
      assign compute_weight (\<lambda>w s. s\<lparr>self_weight := Some w\<rparr>),
      assign (\<lambda>s. Inr (self_pfm s)) (\<lambda>f s. s\<lparr>self_counts := f\<rparr>),
      assign (\<lambda>s. frame_of (get_pm s) generate_consensus)
             (\<lambda>c s. s\<lparr>self_consensus := Some c\<rparr>),
      assign (\<lambda>s. check_background u
                    (PmObj (self_alphabet_type s) (self_alphabet s)) None ''DNA'' None)
             (\<lambda>b s. s\<lparr>self_background := Some b\<rparr>),
      assign compute_ic (\<lambda>v s. s\<lparr>self_ic := Some v\<rparr>),
      recheck_pwm u]"

definition update_pm ::
  "utils \<Rightarrow> ndarray option \<Rightarrow> ndarray option \<Rightarrow> ndarray option \<Rightarrow>
   background option \<Rightarrow> pseudocount option \<Rightarrow> string option \<Rightarrow> string option \<Rightarrow> stmt" where
  "update_pm u pfm ppm pwm bg pc alphabet_type alphabet s0 =
     (let atype = (case alphabet_type of None \<Rightarrow> self_alphabet_type s0 | Some t \<Rightarrow> t) in
      run (set_supplied u pfm ppm pwm atype alphabet
           @ fill_blanks u pfm ppm pwm bg pc
           @ derive_statistics u) s0)"

text \<open>
  \<^verbatim>\<open>CompletePM.__init__\<close>: every derived attribute starts as \<^verbatim>\<open>None\<close>, the pseudocount
  defaults to \<open>1e-10\<close>, and the matrices, if any is given, are reconciled at once.
\<close>

definition new_cpm ::
  "background option \<Rightarrow> pseudocount option \<Rightarrow> string \<Rightarrow> string option \<Rightarrow> pm_kind \<Rightarrow> cpm" where
  "new_cpm bg pc alphabet_type alphabet default_pm =
     \<lparr>self_pfm = None, self_ppm = None, self_pwm = None, self_width = None,
      self_weight = None, self_counts = None, self_consensus = None, self_ic = None,
      self_background = bg,
      self_pseudocount = (case pc of None \<Rightarrow> PcScalar (1 / 10 ^ 10) | Some c \<Rightarrow> c),
      self_alphabet_type = alphabet_type,
      self_alphabet = alphabet,
      self_default_pm = default_pm\<rparr>"

definition CompletePM ::
  "utils \<Rightarrow> ndarray option \<Rightarrow> ndarray option \<Rightarrow> ndarray option \<Rightarrow>
   background option \<Rightarrow> pseudocount option \<Rightarrow> string \<Rightarrow> string option \<Rightarrow> pm_kind \<Rightarrow>
   error option \<times> cpm" where
  "CompletePM u pfm ppm pwm bg pc alphabet_type alphabet default_pm =
     (let self = new_cpm bg pc alphabet_type alphabet default_pm in
      if list_ex (\<lambda>m. m \<noteq> None) [pfm, ppm, pwm] then
        update_pm u pfm ppm pwm bg pc (Some alphabet_type) alphabet self
      else (None, self))"

section \<open>The lazily computed \<^verbatim>\<open>Pm.counts\<close>\<close>

text \<open>
  Of a plain \<^verbatim>\<open>Pm\<close> instance only the stored matrix (attribute \<^verbatim>\<open>_cpm\<close>, which exists
  once a matrix has been set) and the cache \<^verbatim>\<open>_counts\<close> matter here.  The getter fills
  the cache on first use and answers with it.
\<close>

record pm_obj =
  pm_cpm :: "dataframe option"
  pm_counts :: "int list list option"

definition Pm_counts :: "pm_obj \<Rightarrow> error + int list list \<times> pm_obj" where
  "Pm_counts self =
     (case pm_counts self of
        Some c \<Rightarrow> Inr (c, self)
      | None \<Rightarrow>
          (case pm_cpm self of
             None \<Rightarrow> Inl (AttributeError ''_cpm'')
           | Some d \<Rightarrow>
               (let c = map (map (\<lambda>x. astype_int64 (fl64 (x * 100)))) (vals d)
                in Inr (c, self\<lparr>pm_counts := Some c\<rparr>))))"

section \<open>Concrete inputs\<close>

text \<open>The column labels of a frame over the alphabet \<^verbatim>\<open>ACGT\<close>.\<close>

definition acgt :: "label list" where
  "acgt = [ChrL CHR ''A'', ChrL CHR ''C'', ChrL CHR ''G'', ChrL CHR ''T'']"

text \<open>
  A statistic computed from the result of a conversion, \<^verbatim>\<open>g(f(x))\<close> in Python: the
  exception of \<open>f\<close>, if any, is the exception of the whole expression.
\<close>

definition and_then :: "error + 'a \<Rightarrow> ('a \<Rightarrow> error + 'b) \<Rightarrow> error + 'b" where
  "and_then r f = (case r of Inl e \<Rightarrow> Inl e | Inr x \<Rightarrow> f x)"

section \<open>Properties of orientation and validation\<close>

lemmas eval_init_pm = init_pm_def DataFrame_def range_index_def orient_def shape0_def shape1_def
  utils_std_def set_columns_def check_normalization_def allclose_def row_sums_def
  alphabet_letters_def

lemma orient_cases:
  assumes "alphabet_type \<in> NA_ALPHABETS u \<or> alphabet_type \<in> AA_ALPHABETS u
           \<or> alphabet_type = ''custom''"
  shows "orient u alphabet_type n pm =
     (if shape1 pm = n then Inr pm
      else if shape0 pm = n then Inr (transpose_df pm)
      else Inl (ShapeError n))"
  using assms by (simp add: orient_def)

text \<open>
  Claim C6.  Let \<open>N\<close> be the length of the alphabet, for an alphabet type that is a
  nucleic-acid type, an amino-acid type or \<^verbatim>\<open>'custom'\<close>.  \<^verbatim>\<open>_init_pm\<close> is a three-way case
  split on the shape of the table: with \<open>N\<close> columns the cells are kept as they are;
  otherwise, with \<open>N\<close> rows, the table is transposed; otherwise the call fails with the
  shape error that names \<open>N\<close>.  In the two accepting cases the columns are labelled with
  the alphabet and the row-sum check of the matrix kind follows, which does nothing
  for a frequency or weight matrix.  Orienting a result again returns it unchanged.
\<close>

theorem init_pm_three_way:
  assumes supported: "alphabet_type \<in> NA_ALPHABETS u \<or> alphabet_type \<in> AA_ALPHABETS u
                       \<or> alphabet_type = ''custom''"
      and letters: "alphabet_letters u alphabet_type alphabet = Inr letters"
      and src: "submit_pm pm_matrix = Inr pm"
  shows "init_pm u pm_matrix pm_type alphabet_type alphabet =
           (if shape1 pm = length letters then
              check_normalization pm_type (pm\<lparr>columns := map ChrL letters\<rparr>)
            else if shape0 pm = length letters then
              check_normalization pm_type ((transpose_df pm)\<lparr>columns := map ChrL letters\<rparr>)
            else Inl (ShapeError (length letters)))
         \<and> (pm_type \<noteq> ''ppm'' \<longrightarrow> (\<forall>d. check_normalization pm_type d = Inr d))
         \<and> (\<forall>r. init_pm u pm_matrix pm_type alphabet_type alphabet = Inr r \<longrightarrow>
                init_pm u (Frame r) pm_type alphabet_type alphabet = Inr r)"
proof (intro conjI allI impI)
  show main: "init_pm u pm_matrix pm_type alphabet_type alphabet =
           (if shape1 pm = length letters then
              check_normalization pm_type (pm\<lparr>columns := map ChrL letters\<rparr>)
            else if shape0 pm = length letters then
              check_normalization pm_type ((transpose_df pm)\<lparr>columns := map ChrL letters\<rparr>)
            else Inl (ShapeError (length letters)))"
    using supported letters src
    by (simp add: init_pm_def orient_cases set_columns_def shape1_def shape0_def transpose_df_def)
  show "check_normalization pm_type d = Inr d" if "pm_type \<noteq> ''ppm''" for d
    using that by (simp add: check_normalization_def)
  show "init_pm u (Frame r) pm_type alphabet_type alphabet = Inr r"
    if ok: "init_pm u pm_matrix pm_type alphabet_type alphabet = Inr r" for r
  proof -
    have cols: "columns r = map ChrL letters" and norm: "check_normalization pm_type r = Inr r"
      using ok unfolding main
      by (auto simp: check_normalization_def split: if_splits)
    have "shape1 r = length letters" using cols by (simp add: shape1_def)
    moreover have "r\<lparr>columns := map ChrL letters\<rparr> = r" using cols by simp
    ultimately show ?thesis
      using supported letters norm
      by (simp add: init_pm_def orient_cases set_columns_def)
  qed
qed

text \<open>A table of four rows and two columns over \<^verbatim>\<open>DNA\<close> is transposed.\<close>

theorem init_pm_three_way_witness:
  "''DNA'' \<in> NA_ALPHABETS (utils_std [])
   \<and> alphabet_letters (utils_std []) ''DNA'' None = Inr ''ACGT''
   \<and> submit_pm (NdArray [[1, 2], [3, 4], [5, 6], [7, 8]]) =
       Inr (DataFrame [[1, 2], [3, 4], [5, 6], [7, 8]])
   \<and> init_pm (utils_std []) (NdArray [[1, 2], [3, 4], [5, 6], [7, 8]]) ''pfm'' ''DNA'' None =
       Inr \<lparr>index = [IntL 0, IntL 1], columns = acgt, vals = [[1, 3, 5, 7], [2, 4, 6, 8]]\<rparr>
   \<and> init_pm (utils_std [])
       (Frame \<lparr>index = [IntL 0, IntL 1], columns = acgt, vals = [[1, 3, 5, 7], [2, 4, 6, 8]]\<rparr>)
       ''pfm'' ''DNA'' None =
       Inr \<lparr>index = [IntL 0, IntL 1], columns = acgt, vals = [[1, 3, 5, 7], [2, 4, 6, 8]]\<rparr>"
proof -
  have a: "''DNA'' \<in> NA_ALPHABETS (utils_std []) \<or> ''DNA'' \<in> AA_ALPHABETS (utils_std [])
           \<or> ''DNA'' = ''custom''"
    by (simp add: utils_std_def)
  have b: "alphabet_letters (utils_std []) ''DNA'' None = Inr ''ACGT''"
    by (simp add: alphabet_letters_def utils_std_def)
  have c: "submit_pm (NdArray [[1, 2], [3, 4], [5, 6], [7, 8]]) =
             Inr (DataFrame [[1, 2], [3, 4], [5, 6], [7, 8]])"
    by simp
  from init_pm_three_way [OF a b c, of "''pfm''"] a b c show ?thesis
    by (simp add: DataFrame_def range_index_def shape0_def shape1_def transpose_df_def
        check_normalization_def utils_std_def acgt_def)
qed

lemma init_pm_ppm_close:
  "init_pm u src ''ppm'' t a = Inr d \<Longrightarrow> allclose (row_sums d) 1 (1 / 10 ^ 10)"
  by (auto simp: init_pm_def check_normalization_def split: sum.splits if_splits)

lemma pfm2ppm_close: "pfm2ppm u f = Inr d \<Longrightarrow> allclose (row_sums d) 1 (1 / 10 ^ 10)"
  by (auto simp: pfm2ppm_def dest: init_pm_ppm_close split: sum.splits if_splits)

lemma pwm2ppm_close: "pwm2ppm u w bg pc = Inr d \<Longrightarrow> allclose (row_sums d) 1 (1 / 10 ^ 10)"
  by (auto simp: pwm2ppm_def dest: init_pm_ppm_close split: sum.splits if_splits)

lemma allclose_one:
  "allclose xs 1 (1 / 10 ^ 10) \<longleftrightarrow> list_all (\<lambda>x. \<bar>x - 1\<bar> \<le> 1 / 10 ^ 8 + 1 / 10 ^ 10) xs"
  unfolding allclose_def by simp

text \<open>
  Claim C7, as amended.  The claim puts the tolerance of the row sums at \<open>1e-10\<close>.  The
  check is \<^verbatim>\<open>np.allclose(pm.sum(axis=1), 1, 1e-10)\<close>, whose \<open>1e-10\<close> is the relative
  tolerance next to numpy's default absolute tolerance \<open>1e-08\<close>.  So: every probability
  matrix accepted by \<^verbatim>\<open>_init_pm\<close> or produced by \<^verbatim>\<open>pfm2ppm\<close> or \<^verbatim>\<open>pwm2ppm\<close> has each row
  summing to 1 within \<open>1e-08 + 1e-10\<close>, and a table submitted as a probability matrix
  that passes orientation and has a row outside that tolerance fails with the
  normalization error.
\<close>

theorem probability_rows_tolerance:
  "(init_pm u src ''ppm'' t a = Inr d \<longrightarrow>
      list_all (\<lambda>x. \<bar>x - 1\<bar> \<le> 1 / 10 ^ 8 + 1 / 10 ^ 10) (row_sums d))
   \<and> (pfm2ppm u f = Inr d1 \<longrightarrow>
      list_all (\<lambda>x. \<bar>x - 1\<bar> \<le> 1 / 10 ^ 8 + 1 / 10 ^ 10) (row_sums d1))
   \<and> (pwm2ppm u w bg pc = Inr d2 \<longrightarrow>
      list_all (\<lambda>x. \<bar>x - 1\<bar> \<le> 1 / 10 ^ 8 + 1 / 10 ^ 10) (row_sums d2))
   \<and> (submit_pm src' = Inr pm \<and> alphabet_letters u t' a' = Inr letters
       \<and> orient u t' (length letters) pm = Inr pm1 \<and> set_columns letters pm1 = Inr pm2
       \<and> \<not> list_all (\<lambda>x. \<bar>x - 1\<bar> \<le> 1 / 10 ^ 8 + 1 / 10 ^ 10) (row_sums pm2)
      \<longrightarrow> init_pm u src' ''ppm'' t' a' = Inl NormalizationError)"
proof (intro conjI impI)
  show "list_all (\<lambda>x. \<bar>x - 1\<bar> \<le> 1 / 10 ^ 8 + 1 / 10 ^ 10) (row_sums d)"
    if "init_pm u src ''ppm'' t a = Inr d"
    using init_pm_ppm_close [OF that] by (simp only: allclose_one)
  show "list_all (\<lambda>x. \<bar>x - 1\<bar> \<le> 1 / 10 ^ 8 + 1 / 10 ^ 10) (row_sums d1)"
    if "pfm2ppm u f = Inr d1"
    using pfm2ppm_close [OF that] by (simp only: allclose_one)
  show "list_all (\<lambda>x. \<bar>x - 1\<bar> \<le> 1 / 10 ^ 8 + 1 / 10 ^ 10) (row_sums d2)"
    if "pwm2ppm u w bg pc = Inr d2"
    using pwm2ppm_close [OF that] by (simp only: allclose_one)
  show "init_pm u src' ''ppm'' t' a' = Inl NormalizationError"
    if h: "submit_pm src' = Inr pm \<and> alphabet_letters u t' a' = Inr letters
       \<and> orient u t' (length letters) pm = Inr pm1 \<and> set_columns letters pm1 = Inr pm2
       \<and> \<not> list_all (\<lambda>x. \<bar>x - 1\<bar> \<le> 1 / 10 ^ 8 + 1 / 10 ^ 10) (row_sums pm2)"
  proof -
    from h have "\<not> allclose (row_sums pm2) 1 (1 / 10 ^ 10)"
      unfolding allclose_one by blast
    with h show ?thesis by (simp add: init_pm_def check_normalization_def)
  qed
qed

text \<open>
  A uniform row is accepted and is what the conversions give back; a row of ones is
  refused.
\<close>

theorem probability_rows_tolerance_witness:
  "init_pm (utils_std []) (NdArray [[1 / 4, 1 / 4, 1 / 4, 1 / 4]]) ''ppm'' ''DNA'' None =
     Inr \<lparr>index = [IntL 0], columns = acgt, vals = [[1 / 4, 1 / 4, 1 / 4, 1 / 4]]\<rparr>
   \<and> pfm2ppm (utils_std []) \<lparr>index = [IntL 0], columns = acgt, vals = [[1, 1, 1, 1]]\<rparr> =
     Inr \<lparr>index = [IntL 0], columns = acgt, vals = [[1 / 4, 1 / 4, 1 / 4, 1 / 4]]\<rparr>
   \<and> pwm2ppm (utils_std []) \<lparr>index = [IntL 0], columns = acgt, vals = [[0, 0, 0, 0]]\<rparr>
        (Some (Scalar (1 / 4 + 1 / 10 ^ 10))) None =
     Inr \<lparr>index = [IntL 0], columns = acgt, vals = [[1 / 4, 1 / 4, 1 / 4, 1 / 4]]\<rparr>
   \<and> list_all (\<lambda>x. \<bar>x - 1\<bar> \<le> 1 / 10 ^ 8 + 1 / 10 ^ 10)
        (row_sums \<lparr>index = [IntL 0], columns = acgt, vals = [[1 / 4, 1 / 4, 1 / 4, 1 / 4]]\<rparr>)
   \<and> \<not> list_all (\<lambda>x. \<bar>x - 1\<bar> \<le> 1 / 10 ^ 8 + 1 / 10 ^ 10)
        (row_sums \<lparr>index = [IntL 0], columns = acgt, vals = [[1, 1, 1, 1]]\<rparr>)
   \<and> init_pm (utils_std []) (NdArray [[1, 1, 1, 1]]) ''ppm'' ''DNA'' None = Inl NormalizationError"
proof -
  let ?u = "utils_std []"
  let ?d = "\<lparr>index = [IntL 0], columns = acgt, vals = [[1 / 4, 1 / 4, 1 / 4, 1 / 4 :: real]]\<rparr>"
  let ?bad = "\<lparr>index = [IntL 0], columns = acgt, vals = [[1, 1, 1, 1 :: real]]\<rparr>"
  have a: "init_pm ?u (NdArray [[1 / 4, 1 / 4, 1 / 4, 1 / 4]]) ''ppm'' ''DNA'' None = Inr ?d"
    by (simp add: eval_init_pm acgt_def)
  have b: "pfm2ppm ?u ?bad = Inr ?d"
    by (simp add: pfm2ppm_def div_rows_def has_zero_total_def eval_init_pm acgt_def)
  have c: "pwm2ppm ?u \<lparr>index = [IntL 0], columns = acgt, vals = [[0, 0, 0, 0]]\<rparr>
             (Some (Scalar (1 / 4 + 1 / 10 ^ 10))) None = Inr ?d"
    by (simp add: pwm2ppm_def check_background_def resolve_pseudocount_def
        with_log2_background_def map_cells_def eval_init_pm acgt_def)
  have d: "submit_pm (NdArray [[1, 1, 1, 1]]) = Inr (DataFrame [[1, 1, 1, 1]])
           \<and> alphabet_letters ?u ''DNA'' None = Inr ''ACGT''
           \<and> orient ?u ''DNA'' (length ''ACGT'') (DataFrame [[1, 1, 1, 1]]) =
               Inr (DataFrame [[1, 1, 1, 1]])
           \<and> set_columns ''ACGT'' (DataFrame [[1, 1, 1, 1]]) = Inr ?bad
           \<and> \<not> list_all (\<lambda>x. \<bar>x - 1\<bar> \<le> 1 / 10 ^ 8 + 1 / 10 ^ 10) (row_sums ?bad)"
    by (simp add: eval_init_pm acgt_def)
  from probability_rows_tolerance
         [of ?u "NdArray [[1 / 4, 1 / 4, 1 / 4, 1 / 4]]" "''DNA''" None ?d ?bad ?d
             "\<lparr>index = [IntL 0], columns = acgt, vals = [[0, 0, 0, 0]]\<rparr>"
             "Some (Scalar (1 / 4 + 1 / 10 ^ 10))" None ?d
             "NdArray [[1, 1, 1, 1]]" "DataFrame [[1, 1, 1, 1]]" "''DNA''" None "''ACGT''"
             "DataFrame [[1, 1, 1, 1]]" ?bad]
       a b c d
  show ?thesis by blast
qed

text \<open>
  The claim as stated fails: a row whose sum is off by \<open>5e-9\<close>, fifty times the stated
  tolerance, is accepted as a probability matrix.
\<close>

theorem accepts_row_sum_off_by_5e9:
  "init_pm (utils_std []) (NdArray [[1 / 4, 1 / 4, 1 / 4, 1 / 4 + 5 / 10 ^ 9]])
     ''ppm'' ''DNA'' None =
     Inr \<lparr>index = [IntL 0], columns = acgt,
          vals = [[1 / 4, 1 / 4, 1 / 4, 1 / 4 + 5 / 10 ^ 9]]\<rparr>
   \<and> \<not> \<bar>sum_list [1 / 4, 1 / 4, 1 / 4, 1 / 4 + 5 / 10 ^ 9] - (1::real)\<bar> \<le> 1 / 10 ^ 10 * \<bar>1\<bar>"
  by (simp add: eval_init_pm acgt_def)

section \<open>Properties of the legacy information content\<close>

lemma foldl_np_add_finite:
  "list_all is_finite xs \<Longrightarrow> \<exists>r. foldl np_add (Fin a) xs = Fin r"
proof (induction xs arbitrary: a)
  case Nil
  then show ?case by simp
next
  case (Cons x xs)
  then obtain v where "x = Fin v" by (cases x) (auto simp: is_finite_def)
  with Cons show ?case by simp
qed

lemma proportion_is_finite: "is_finite x \<Longrightarrow> is_finite (proportion x)"
  by (cases x) (auto simp: proportion_def is_finite_def)

lemma row_ic_finite:
  assumes "list_all is_finite r"
  shows "is_finite (np_add (Fin 2) (np_sum (map proportion r)))"
proof -
  have "list_all is_finite (map proportion r)"
    using assms by (induction r) (auto simp: proportion_is_finite)
  then obtain v where "np_sum (map proportion r) = Fin v"
    unfolding np_sum_def using foldl_np_add_finite by blast
  then show ?thesis by (simp add: is_finite_def)
qed

text \<open>
  Without the guard of \<^verbatim>\<open>__proportion\<close> a zero probability would give
  \<open>0 * log2 0 = 0 * -inf = NaN\<close>.
\<close>

lemma unguarded_product_at_zero: "np_mul (Fin 0) (np_log2 (Fin 0)) = NaN"
  by simp

text \<open>
  Claim C10.  \<^verbatim>\<open>__proportion\<close> is total: on a finite input \<open>p\<close> it returns
  \<open>p * log2 p\<close> when \<open>p > 0\<close> and exactly 0 otherwise; on no input at all, finite or
  not, does it return minus infinity or NaN.  Hence the legacy information content
  \<open>2 + \<Sum> proportion\<close> of every row of finite cells, zero probabilities included, is
  finite.
\<close>

theorem proportion_total_finite:
  "proportion (Fin p) = (if 0 < p then Fin (p * log 2 p) else Fin 0)
   \<and> proportion x \<noteq> NInf \<and> proportion x \<noteq> NaN
   \<and> (list_all (list_all is_finite) rows \<longrightarrow> list_all is_finite (row_wise_ic rows))"
proof (intro conjI impI)
  show "proportion (Fin p) = (if 0 < p then Fin (p * log 2 p) else Fin 0)"
    by (simp add: proportion_def)
  show "proportion x \<noteq> NInf" by (cases x) (auto simp: proportion_def)
  show "proportion x \<noteq> NaN" by (cases x) (auto simp: proportion_def)
  show "list_all is_finite (row_wise_ic rows)" if "list_all (list_all is_finite) rows"
    using that by (induction rows) (auto simp: row_wise_ic_def row_ic_finite)
qed

text \<open>A row with two zero probabilities.\<close>

theorem proportion_total_finite_witness:
  "list_all (list_all is_finite) [[Fin 0, Fin 0, Fin (1 / 2), Fin (1 / 2)]]
   \<and> list_all is_finite (row_wise_ic [[Fin 0, Fin 0, Fin (1 / 2), Fin (1 / 2)]])
   \<and> proportion (Fin 0) = Fin 0"
proof -
  have h: "list_all (list_all is_finite) [[Fin 0, Fin 0, Fin (1 / 2), Fin (1 / 2)]]"
    by (simp add: is_finite_def)
  from proportion_total_finite [of 0 "Fin 0" "[[Fin 0, Fin 0, Fin (1 / 2), Fin (1 / 2)]]"] h
  show ?thesis by simp
qed

section \<open>Properties of background resolution\<close>

text \<open>
  Two parts of claim C8 hold.  An explicit number or vector is returned as it is, and
  an instance whose alphabet type has no built-in background fails with the error that
  names the type.
\<close>

lemma check_background_explicit:
  "check_background u pm (Some (Scalar x)) t a = Inr (Scalar x)"
  "check_background u pm (Some (Vector v)) t a = Inr (Vector v)"
  by (simp_all add: check_background_def)

lemma check_background_unsupported:
  "t \<notin> NA_ALPHABETS u \<Longrightarrow> t \<notin> AA_ALPHABETS u \<Longrightarrow> t \<noteq> ''custom'' \<Longrightarrow>
   check_background u (PmObj t a) None t' a' = Inl (ConfigurationError t)"
  by (simp add: check_background_def Pm_alphabet_def split: option.splits)

text \<open>
  Claim C8 also says that a supplied vector whose length differs from the alphabet
  length \<open>N\<close> causes a shape error.  The length check of \<^verbatim>\<open>_check_background\<close>
  (lines 578-580, under the comment that the background must be a constant or long
  enough to broadcast) sits behind the \<^verbatim>\<open>return background\<close> of the branch for a
  supplied background, so it is never applied to one: over \<^verbatim>\<open>DNA\<close>, where \<open>N = 4\<close>, a
  vector of two numbers is returned as it is, for an instance and for a frame alike.
\<close>

theorem short_background_vector_is_returned:
  "alphabet_letters (utils_std []) ''DNA'' None = Inr ''ACGT''
   \<and> check_background (utils_std []) (PmObj ''DNA'' None)
       (Some (Vector [1 / 2, 1 / 2])) ''DNA'' None = Inr (Vector [1 / 2, 1 / 2])
   \<and> check_background (utils_std []) FrameObj
       (Some (Vector [1 / 2, 1 / 2])) ''DNA'' None = Inr (Vector [1 / 2, 1 / 2])"
  by (simp add: check_background_def alphabet_letters_def utils_std_def)

section \<open>Properties of the conversions\<close>

lemma init_pm_frame_fits:
  assumes "IDX_LETTERS u ''DNA'' = Some letters" and "shape1 d = length letters"
  shows "init_pm u (Frame d) k ''DNA'' None =
           check_normalization k (d\<lparr>columns := map ChrL letters\<rparr>)"
  using assms by (simp add: init_pm_def alphabet_letters_def orient_def set_columns_def)

subsection \<open>The float product and the cast of \<^verbatim>\<open>ppm2pfm\<close>\<close>

lemma round_half_even_error: "\<bar>real_of_int (round_half_even z) - z\<bar> \<le> 1 / 2"
  unfolding round_half_even_def Let_def by (auto; linarith)

lemma round_half_even_of_int: "round_half_even (of_int m) = m"
  by (simp add: round_half_even_def Let_def)

lemma round_half_even_nonneg: "0 \<le> z \<Longrightarrow> 0 \<le> round_half_even z"
  unfolding round_half_even_def Let_def by (auto; linarith)

lemma fl64_normal:
  assumes "2 powr of_int k \<le> \<bar>x\<bar>" and "\<bar>x\<bar> < 2 powr (of_int k + 1)" and "- 1022 \<le> k"
  shows "fl64 x = of_int (round_half_even (x / 2 powr (of_int k - 52))) * 2 powr (of_int k - 52)"
proof -
  have pos: "0 < \<bar>x\<bar>" using assms(1) by (smt (verit) powr_gt_zero)
  then have "\<lfloor>log 2 \<bar>x\<bar>\<rfloor> = k"
    using assms(1,2) by (subst floor_log_eq_powr_iff) simp_all
  moreover have "x \<noteq> 0" using pos by auto
  ultimately show ?thesis using assms(3) by (simp add: fl64_def Let_def max_def)
qed

lemma fl64_exact:
  assumes "2 powr of_int k \<le> \<bar>x\<bar>" and "\<bar>x\<bar> < 2 powr (of_int k + 1)" and "- 1022 \<le> k"
      and "x / 2 powr (of_int k - 52) = of_int m"
  shows "fl64 x = x"
proof -
  have "fl64 x = of_int m * 2 powr (of_int k - 52)"
    unfolding fl64_normal [OF assms(1-3)] assms(4) round_half_even_of_int ..
  also have "\<dots> = x"
    unfolding assms(4) [symmetric] by simp
  finally show ?thesis .
qed

lemma fl64_nonneg: "0 \<le> y \<Longrightarrow> 0 \<le> fl64 y"
  by (auto simp: fl64_def Let_def intro!: mult_nonneg_nonneg round_half_even_nonneg)

lemma fl64_error_100:
  assumes "0 \<le> y" and "y \<le> 100"
  shows "\<bar>fl64 y - y\<bar> \<le> 1 / 2 ^ 47"
proof (cases "y = 0")
  case True
  then show ?thesis by (simp add: fl64_def)
next
  case False
  with assms have pos: "0 < y" by simp
  define e where "e = max \<lfloor>log 2 \<bar>y\<bar>\<rfloor> (- 1022)"
  define ulp :: real where "ulp = 2 powr (of_int e - 52)"
  have "log 2 y \<le> log 2 100" using pos assms(2) by simp
  also have "\<dots> < log 2 (2 powr 7)" by (subst log_less_cancel_iff) simp_all
  also have "\<dots> = 7" by (rule log_powr_cancel) simp_all
  finally have "\<lfloor>log 2 y\<rfloor> \<le> 6" by linarith
  then have "e \<le> 6" using pos by (simp add: e_def)
  then have "ulp \<le> 2 powr (- 46)" unfolding ulp_def by (intro powr_mono) simp_all
  also have "\<dots> = 1 / 2 ^ 46" by (simp add: powr_minus_divide)
  finally have ulp_le: "ulp \<le> 1 / 2 ^ 46" .
  have ulp_pos: "0 < ulp" by (simp add: ulp_def)
  have eq: "fl64 y = of_int (round_half_even (y / ulp)) * ulp"
    using False by (simp add: fl64_def Let_def e_def ulp_def)
  have "fl64 y - y = (of_int (round_half_even (y / ulp)) - y / ulp) * ulp"
    using ulp_pos by (simp add: eq field_simps)
  then have "\<bar>fl64 y - y\<bar> = \<bar>of_int (round_half_even (y / ulp)) - y / ulp\<bar> * ulp"
    using ulp_pos by (simp add: abs_mult)
  also have "\<dots> \<le> 1 / 2 * ulp"
    using round_half_even_error [of "y / ulp"] ulp_pos by (intro mult_right_mono) simp_all
  also have "\<dots> \<le> 1 / 2 ^ 47" using ulp_le by simp
  finally show ?thesis .
qed

lemma astype_int64_product:
  assumes "0 \<le> v" and "v \<le> 1"
  shows "astype_int64 (fl64 (v * 100)) = \<lfloor>fl64 (v * 100)\<rfloor>"
proof -
  have y: "0 \<le> v * 100" "v * 100 \<le> 100" using assms by simp_all
  have lo: "0 \<le> fl64 (v * 100)" using y(1) by (rule fl64_nonneg)
  have "fl64 (v * 100) \<le> v * 100 + 1 / 2 ^ 47"
    using fl64_error_100 [OF y] by linarith
  then have hi: "fl64 (v * 100) < 101" using y(2) by simp
  have "0 \<le> \<lfloor>fl64 (v * 100)\<rfloor>" using lo by simp
  moreover have "\<lfloor>fl64 (v * 100)\<rfloor> < 101" using hi by linarith
  ultimately show ?thesis using lo by (simp add: astype_int64_def Let_def)
qed


lemma fl64_0: "fl64 0 = 0"
  by (simp add: fl64_def)

lemma fl64_25: "fl64 25 = 25"
  by (rule fl64_exact [where k = 4 and m = "25 * 2 ^ 48"]) (simp_all add: powr_minus field_simps)

lemma fl64_75: "fl64 75 = 75"
  by (rule fl64_exact [where k = 6 and m = "75 * 2 ^ 46"]) (simp_all add: powr_minus field_simps)

lemma fl64_100: "fl64 100 = 100"
  by (rule fl64_exact [where k = 6 and m = "100 * 2 ^ 46"]) (simp_all add: powr_minus field_simps)

lemma fl64_825_32: "fl64 (825 / 32) = 825 / 32"
  by (rule fl64_exact [where k = 4 and m = "825 * 2 ^ 43"]) (simp_all add: powr_minus field_simps)

lemma fl64_775_32: "fl64 (775 / 32) = 775 / 32"
  by (rule fl64_exact [where k = 4 and m = "775 * 2 ^ 43"]) (simp_all add: powr_minus field_simps)

lemma is_float64_0: "is_float64 0"
  by (simp add: is_float64_def fl64_0)

lemma is_float64_quarter: "is_float64 (1 / 4)"
  unfolding is_float64_def
  by (rule fl64_exact [where k = "- 2" and m = "2 ^ 52"]) (simp_all add: powr_minus field_simps)

lemma is_float64_three_quarters: "is_float64 (3 / 4)"
  unfolding is_float64_def
  by (rule fl64_exact [where k = "- 1" and m = "3 * 2 ^ 51"]) (simp_all add: powr_minus field_simps)

lemma is_float64_33_128: "is_float64 (33 / 128)"
  unfolding is_float64_def
  by (rule fl64_exact [where k = "- 2" and m = "33 * 2 ^ 47"]) (simp_all add: powr_minus field_simps)

lemma is_float64_31_128: "is_float64 (31 / 128)"
  unfolding is_float64_def
  by (rule fl64_exact [where k = "- 3" and m = "31 * 2 ^ 48"]) (simp_all add: powr_minus field_simps)

lemmas fl64_values = fl64_0 fl64_25 fl64_75 fl64_100 fl64_825_32 fl64_775_32

text \<open>
  The doubles nearest to 0.29 and to 0.71 are \<open>5224175567749775 / 2 ^ 54\<close> and
  \<open>799388933858263 / 2 ^ 50\<close>.  Their products with 100 round to
  \<open>28.999999999999996\<close> and to 71, and are cast to 28 and 71.
\<close>

lemma product_of_double_029:
  "is_float64 (5224175567749775 / 2 ^ 54)
   \<and> fl64 (5224175567749775 / 2 ^ 54 * 100) = 8162774324609023 / 2 ^ 48
   \<and> astype_int64 (fl64 (5224175567749775 / 2 ^ 54 * 100)) = 28"
proof -
  have a: "is_float64 (5224175567749775 / 2 ^ 54)"
    unfolding is_float64_def
    by (rule fl64_exact [where k = "- 2" and m = "5224175567749775"])
       (simp_all add: powr_minus field_simps)
  have b: "fl64 (5224175567749775 / 2 ^ 54 * 100) = 8162774324609023 / 2 ^ 48"
    by (subst fl64_normal [where k = 4])
       (simp_all add: powr_minus field_simps round_half_even_def Let_def)
  show ?thesis unfolding b using a by (simp add: astype_int64_def Let_def)
qed

lemma product_of_double_071:
  "is_float64 (799388933858263 / 2 ^ 50)
   \<and> fl64 (799388933858263 / 2 ^ 50 * 100) = 71
   \<and> astype_int64 (fl64 (799388933858263 / 2 ^ 50 * 100)) = 71"
proof -
  have a: "is_float64 (799388933858263 / 2 ^ 50)"
    unfolding is_float64_def
    by (rule fl64_exact [where k = "- 1" and m = "6395111470866104"])
       (simp_all add: powr_minus field_simps)
  have b: "fl64 (799388933858263 / 2 ^ 50 * 100) = 71"
    by (subst fl64_normal [where k = 6])
       (simp_all add: powr_minus field_simps round_half_even_def Let_def)
  show ?thesis unfolding b using a by (simp add: astype_int64_def Let_def)
qed

text \<open>
  Claim C4, as amended.  The claim has \<^verbatim>\<open>ppm2pfm\<close> round \<open>v * 100\<close>; the code casts with
  \<^verbatim>\<open>astype(np.int64)\<close>, which drops the fractional part.  So: for every probability
  matrix \<open>P\<close> with as many columns as the \<^verbatim>\<open>DNA\<close> alphabet has symbols and with cells
  that are doubles between 0 and 1, \<^verbatim>\<open>ppm2pfm\<close> maps every cell \<open>v\<close> to the integer part
  of the float product \<open>v * 100\<close>, a product that is within \<open>2 ^ -47\<close> of the exact one;
  and so does the lazily computed \<^verbatim>\<open>counts\<close> of a \<^verbatim>\<open>Pm\<close> for the matrix it stores.
\<close>

theorem ppm2pfm_truncates:
  assumes "IDX_LETTERS u ''DNA'' = Some letters" and "shape1 P = length letters"
      and cells: "list_all (list_all (\<lambda>v. is_float64 v \<and> 0 \<le> v \<and> v \<le> 1)) (vals P)"
  shows "ppm2pfm u P =
           Inr (P\<lparr>columns := map ChrL letters,
                  vals := map (map (\<lambda>v. of_int \<lfloor>fl64 (v * 100)\<rfloor>)) (vals P)\<rparr>)
         \<and> Pm_counts \<lparr>pm_cpm = Some P, pm_counts = None\<rparr> =
           Inr (map (map (\<lambda>v. \<lfloor>fl64 (v * 100)\<rfloor>)) (vals P),
                \<lparr>pm_cpm = Some P,
                 pm_counts = Some (map (map (\<lambda>v. \<lfloor>fl64 (v * 100)\<rfloor>)) (vals P))\<rparr>)
         \<and> list_all (list_all (\<lambda>v. \<bar>fl64 (v * 100) - v * 100\<bar> \<le> 1 / 2 ^ 47)) (vals P)"
proof (intro conjI)
  have cast: "map (map (\<lambda>v. astype_int64 (fl64 (v * 100)))) (vals P)
                = map (map (\<lambda>v. \<lfloor>fl64 (v * 100)\<rfloor>)) (vals P)"
    using cells by (intro map_cong refl astype_int64_product) (auto simp: list_all_iff)
  have cast': "map (map (\<lambda>v. real_of_int (astype_int64 (fl64 (v * 100))))) (vals P)
                = map (map (\<lambda>v. real_of_int \<lfloor>fl64 (v * 100)\<rfloor>)) (vals P)"
    using cells by (intro map_cong refl arg_cong [where f = real_of_int] astype_int64_product)
      (auto simp: list_all_iff)
  show "ppm2pfm u P =
           Inr (P\<lparr>columns := map ChrL letters,
                  vals := map (map (\<lambda>v. of_int \<lfloor>fl64 (v * 100)\<rfloor>)) (vals P)\<rparr>)"
    using assms(1,2)
    by (simp add: ppm2pfm_def init_pm_frame_fits map_cells_def shape1_def
        check_normalization_def cast')
  show "Pm_counts \<lparr>pm_cpm = Some P, pm_counts = None\<rparr> =
           Inr (map (map (\<lambda>v. \<lfloor>fl64 (v * 100)\<rfloor>)) (vals P),
                \<lparr>pm_cpm = Some P,
                 pm_counts = Some (map (map (\<lambda>v. \<lfloor>fl64 (v * 100)\<rfloor>)) (vals P))\<rparr>)"
    by (simp add: Pm_counts_def Let_def cast)
  have "\<bar>fl64 (v * 100) - v * 100\<bar> \<le> 1 / 2 ^ 47"
    if "r \<in> set (vals P)" and "v \<in> set r" for r v
  proof -
    from that cells have "0 \<le> v" "v \<le> 1" by (auto simp: list_all_iff)
    then show ?thesis by (intro fl64_error_100) simp_all
  qed
  then show "list_all (list_all (\<lambda>v. \<bar>fl64 (v * 100) - v * 100\<bar> \<le> 1 / 2 ^ 47)) (vals P)"
    unfolding list_all_iff by blast
qed

theorem ppm2pfm_truncates_witness:
  "IDX_LETTERS (utils_std []) ''DNA'' = Some ''ACGT''
   \<and> shape1 \<lparr>index = [IntL 0], columns = acgt, vals = [[1 / 4, 3 / 4, 0, 0]]\<rparr> = length ''ACGT''
   \<and> list_all (list_all (\<lambda>v. is_float64 v \<and> 0 \<le> v \<and> v \<le> 1)) [[1 / 4, 3 / 4, 0, 0]]
   \<and> ppm2pfm (utils_std [])
       \<lparr>index = [IntL 0], columns = acgt, vals = [[1 / 4, 3 / 4, 0, 0]]\<rparr> =
     Inr \<lparr>index = [IntL 0], columns = acgt, vals = [[25, 75, 0, 0]]\<rparr>"
proof -
  let ?P = "\<lparr>index = [IntL 0], columns = acgt, vals = [[1 / 4, 3 / 4, 0, 0 :: real]]\<rparr>"
  have a: "IDX_LETTERS (utils_std []) ''DNA'' = Some ''ACGT''"
    by (simp add: utils_std_def)
  have b: "shape1 ?P = length ''ACGT''"
    by (simp add: shape1_def acgt_def)
  have c: "list_all (list_all (\<lambda>v. is_float64 v \<and> 0 \<le> v \<and> v \<le> 1)) (vals ?P)"
    by (simp add: is_float64_0 is_float64_quarter is_float64_three_quarters)
  from ppm2pfm_truncates [OF a b c] a b c show ?thesis
    by (simp add: fl64_values acgt_def)
qed

text \<open>
  The claim as stated fails: the cell \<open>33 / 128 = 0.2578125\<close> becomes 25, while its
  product with 100, the double \<open>25.78125\<close>, rounds to 26.
\<close>

theorem ppm2pfm_drops_fraction:
  "ppm2pfm (utils_std [])
     \<lparr>index = [IntL 0], columns = acgt, vals = [[33 / 128, 31 / 128, 1 / 4, 1 / 4]]\<rparr> =
     Inr \<lparr>index = [IntL 0], columns = acgt, vals = [[25, 24, 25, 25]]\<rparr>
   \<and> is_float64 (33 / 128) \<and> is_float64 (31 / 128) \<and> is_float64 (1 / 4)
   \<and> round (33 / 128 * 100 :: real) = 26"
  by (simp add: ppm2pfm_def map_cells_def astype_int64_def Let_def eval_init_pm acgt_def
      round_def fl64_values is_float64_33_128 is_float64_31_128 is_float64_quarter)


text \<open>
  For a matrix with as many columns as \<^verbatim>\<open>DNA\<close> has symbols the round trip of claim C2
  is exact over the reals: positive background (a number, or one number per column),
  cells that stay positive once the pseudocount is added.
\<close>

lemma roundtrip_row_scalar:
  assumes "0 < b" and "list_all (\<lambda>x. 0 < x + c) r"
  shows "map (\<lambda>x. 2 powr (log 2 (x + c) - log 2 b + log 2 b) - c) r = r"
  using assms(2) by (induction r) simp_all

lemma roundtrip_row_vector:
  assumes "length r = length v" and "list_all (\<lambda>x. 0 < x + c) r"
  shows "map (\<lambda>x. 2 powr x - c)
           (map2 (+) (map2 (-) (map (\<lambda>x. log 2 (x + c)) r) (map (log 2) v)) (map (log 2) v)) = r"
  using assms by (induction r v rule: list_induct2) simp_all

lemma roundtrip_dna:
  assumes letters: "IDX_LETTERS u ''DNA'' = Some letters"
      and shape: "shape1 P = length letters" and wf: "wf_frame P"
      and close: "allclose (row_sums P) 1 (1 / 10 ^ 10)"
      and pos: "list_all (list_all (\<lambda>x. 0 < x + c)) (vals P)"
      and bg: "case bg of Scalar b \<Rightarrow> 0 < b
               | Vector v \<Rightarrow> length v = shape1 P \<and> list_all (\<lambda>b. 0 < b) v
               | NotNumeric \<Rightarrow> False"
  shows "and_then (ppm2pwm u P (Some bg) (Some (PcScalar c)))
           (\<lambda>W. pwm2ppm u W (Some bg) (Some (PcScalar c)))
         = Inr (P\<lparr>columns := map ChrL letters\<rparr>)"
proof (cases bg)
  case (Scalar b)
  with bg have b: "0 < b" by simp
  have cells: "map (map (\<lambda>x. 2 powr (log 2 (x + c) - log 2 b + log 2 b) - c)) (vals P) = vals P"
    using pos by (induction "vals P") (simp_all add: roundtrip_row_scalar [OF b] list_all_iff map_idI)
  show ?thesis
    using letters shape close cells
    by (simp add: Scalar and_then_def ppm2pwm_def pwm2ppm_def check_background_def
        resolve_pseudocount_def with_log2_background_def map_cells_def init_pm_frame_fits
        shape1_def check_normalization_def row_sums_def o_def)
next
  case (Vector v)
  with bg have len: "length v = length (columns P)" by (simp add: shape1_def)
  have rows: "\<And>r. r \<in> set (vals P) \<Longrightarrow> length r = length v"
    using wf len by (simp add: wf_frame_def list_all_iff)
  have cells: "map (\<lambda>r. map (\<lambda>x. 2 powr x - c)
           (map2 (+) (map2 (-) (map (\<lambda>x. log 2 (x + c)) r) (map (log 2) v)) (map (log 2) v)))
          (vals P) = vals P"
    using pos rows by (intro map_idI roundtrip_row_vector) (simp_all add: list_all_iff)
  show ?thesis
    using letters shape close len cells
    by (simp add: Vector and_then_def ppm2pwm_def pwm2ppm_def check_background_def
        resolve_pseudocount_def with_log2_background_def map_cells_def broadcast_cols_def
        init_pm_frame_fits shape1_def check_normalization_def row_sums_def o_def)
next
  case NotNumeric
  with bg show ?thesis by simp
qed

text \<open>
  Claim C2 promises the round trip \<^verbatim>\<open>pwm2ppm(ppm2pwm(P, bg, pc), bg, pc)\<close> for every
  probability matrix.  \<^verbatim>\<open>ppm2pwm\<close> ends in \<^verbatim>\<open>_init_pm(..., pm_type = 'pwm')\<close>, which
  checks the result against the default alphabet \<^verbatim>\<open>DNA\<close> whatever alphabet the matrix
  is over.  A probability matrix of one row over the six symbols of \<^verbatim>\<open>reduced DNA\<close>,
  accepted as such by \<^verbatim>\<open>_init_pm\<close>, is refused by \<^verbatim>\<open>ppm2pwm\<close> with the shape error for
  four symbols, so there is no weight matrix to convert back.
\<close>

theorem ppm2pwm_rejects_six_columns:
  "init_pm (utils_std []) (NdArray [[1 / 2, 1 / 2, 0, 0, 0, 0]]) ''ppm'' ''reduced DNA'' None =
     Inr \<lparr>index = [IntL 0], columns = map ChrL ''ACGTN-'',
          vals = [[1 / 2, 1 / 2, 0, 0, 0, 0]]\<rparr>
   \<and> ppm2pwm (utils_std [])
       \<lparr>index = [IntL 0], columns = map ChrL ''ACGTN-'', vals = [[1 / 2, 1 / 2, 0, 0, 0, 0]]\<rparr>
       (Some (Scalar (1 / 4))) (Some (PcScalar (1 / 10 ^ 10))) = Inl (ShapeError 4)"
  by (simp add: ppm2pwm_def check_background_def resolve_pseudocount_def
        with_log2_background_def map_cells_def eval_init_pm)

section \<open>Properties of the consensus\<close>















section \<open>Properties of reconciliation\<close>

lemmas eval_stmt = when_stmt_def assign_def frame_of_def get_pm_def check_pseudocount_def
  compute_weight_def set_supplied_def fill_blanks_def derive_statistics_def

lemmas eval_conv = ppm2pwm_def pwm2ppm_def ppm2pfm_def check_background_def
  resolve_pseudocount_def with_log2_background_def map_cells_def broadcast_cols_def
  builtin_background_def Pm_alphabet_def astype_int64_def Let_def fl64_values

lemmas eval_update = CompletePM_def new_cpm_def update_pm_def eval_stmt eval_init_pm eval_conv
  compute_ic_def recheck_pwm_def generate_consensus_def mul_sum_def lookup_row_def
  aligned_dot_def

lemma run_preserves:
  assumes "\<And>p s e s'. p \<in> set ps \<Longrightarrow> p s = (e, s') \<Longrightarrow> f s' = f s"
      and "run ps s = (e, s')"
  shows "f s' = f s"
  using assms
proof (induction ps arbitrary: s)
  case Nil
  then show ?case by simp
next
  case (Cons p ps)
  obtain e1 s1 where p: "p s = (e1, s1)" by (cases "p s")
  have f1: "f s1 = f s" using Cons.prems(1) [of p s e1 s1] p by simp
  show ?case
  proof (cases e1)
    case None
    with p Cons.prems(2) have "run ps s1 = (e, s')" by simp
    moreover have "\<And>q t e2 t'. q \<in> set ps \<Longrightarrow> q t = (e2, t') \<Longrightarrow> f t' = f t"
      using Cons.prems(1) by (meson list.set_intros(2))
    ultimately have "f s' = f s1" by (rule Cons.IH [rotated])
    with f1 show ?thesis by simp
  next
    case (Some x)
    with p Cons.prems(2) have "s' = s1" by simp
    with f1 show ?thesis by simp
  qed
qed

lemma run_append:
  "run (ps @ qs) s =
     (case run ps s of (Some e, s') \<Rightarrow> (Some e, s') | (None, s') \<Rightarrow> run qs s')"
  by (induction ps arbitrary: s) (auto split: prod.splits option.splits)

lemma assign_preserves:
  assumes "\<And>v s. f (store v s) = f s" and "assign expr store s = (e, s')"
  shows "f s' = f s"
  using assms by (auto simp: assign_def split: sum.splits)

lemma when_stmt_preserves:
  assumes "\<And>s e s'. p s = (e, s') \<Longrightarrow> f s' = f s" and "when_stmt c p s = (e, s')"
  shows "f s' = f s"
  using assms by (auto simp: when_stmt_def split: if_splits)

lemma check_pseudocount_same: "check_pseudocount s = (e, s') \<Longrightarrow> s' = s"
  by (auto simp: check_pseudocount_def split: pseudocount.splits if_splits)

lemma recheck_pwm_same: "recheck_pwm u s = (e, s') \<Longrightarrow> s' = s"
  by (auto simp: recheck_pwm_def split: sum.splits)

lemma matrices_preserve:
  assumes fields: "\<And>d s. f (s\<lparr>self_pfm := d\<rparr>) = f s" "\<And>d s. f (s\<lparr>self_ppm := d\<rparr>) = f s"
      "\<And>d s. f (s\<lparr>self_pwm := d\<rparr>) = f s"
    and run: "run (set_supplied u pfm ppm pwm atype a @ fill_blanks u pfm ppm pwm bg pc) s
                = (e, s')"
  shows "f s' = f s"
  using run unfolding set_supplied_def fill_blanks_def
  apply (erule_tac run_preserves [rotated])
  apply (simp only: list.set insert_iff empty_iff append.simps)
  apply (elim disjE)
  apply (auto elim!: when_stmt_preserves [rotated] assign_preserves [rotated] simp: fields)
  done

lemma statistics_preserve:
  assumes fields: "\<And>d s. f (s\<lparr>self_width := d\<rparr>) = f s"
      "\<And>d s. f (s\<lparr>self_weight := d\<rparr>) = f s" "\<And>d s. f (s\<lparr>self_counts := d\<rparr>) = f s"
      "\<And>d s. f (s\<lparr>self_consensus := d\<rparr>) = f s" "\<And>d s. f (s\<lparr>self_background := d\<rparr>) = f s"
      "\<And>d s. f (s\<lparr>self_ic := d\<rparr>) = f s"
    and run: "run (derive_statistics u) s = (e, s')"
  shows "f s' = f s"
  using run unfolding derive_statistics_def
  apply (erule_tac run_preserves [rotated])
  apply (simp only: list.set insert_iff empty_iff)
  apply (elim disjE)
  apply (auto elim!: assign_preserves [rotated]
              dest: check_pseudocount_same recheck_pwm_same simp: fields)
  done

lemma update_pm_split:
  assumes "update_pm u pfm ppm pwm bg pc t a s = (e, s')"
  obtains e1 s1 where
    "run (set_supplied u pfm ppm pwm (case t of None \<Rightarrow> self_alphabet_type s | Some x \<Rightarrow> x) a
          @ fill_blanks u pfm ppm pwm bg pc) s = (e1, s1)"
    and "e1 \<noteq> None \<longrightarrow> e = e1 \<and> s' = s1"
    and "e1 = None \<longrightarrow> run (derive_statistics u) s1 = (e, s')"
proof -
  let ?pre = "set_supplied u pfm ppm pwm (case t of None \<Rightarrow> self_alphabet_type s | Some x \<Rightarrow> x) a
          @ fill_blanks u pfm ppm pwm bg pc"
  obtain e1 s1 where r: "run ?pre s = (e1, s1)" by (cases "run ?pre s")
  have "run (?pre @ derive_statistics u) s = (e, s')"
    using assms by (simp add: update_pm_def Let_def)
  then have "(case (e1, s1) of (Some e, s') \<Rightarrow> (Some e, s')
                | (None, s') \<Rightarrow> run (derive_statistics u) s') = (e, s')"
    unfolding run_append [of ?pre "derive_statistics u" s] r .
  then have "e1 \<noteq> None \<longrightarrow> e = e1 \<and> s' = s1"
    and "e1 = None \<longrightarrow> run (derive_statistics u) s1 = (e, s')"
    by (auto split: option.splits)
  with r show ?thesis using that by blast
qed

lemma update_pm_preserves:
  assumes fields: "\<And>d s. f (s\<lparr>self_pfm := d\<rparr>) = f s" "\<And>d s. f (s\<lparr>self_ppm := d\<rparr>) = f s"
      "\<And>d s. f (s\<lparr>self_pwm := d\<rparr>) = f s" "\<And>d s. f (s\<lparr>self_width := d\<rparr>) = f s"
      "\<And>d s. f (s\<lparr>self_weight := d\<rparr>) = f s" "\<And>d s. f (s\<lparr>self_counts := d\<rparr>) = f s"
      "\<And>d s. f (s\<lparr>self_consensus := d\<rparr>) = f s" "\<And>d s. f (s\<lparr>self_background := d\<rparr>) = f s"
      "\<And>d s. f (s\<lparr>self_ic := d\<rparr>) = f s"
    and run: "update_pm u pfm ppm pwm bg pc t a s = (e, s')"
  shows "f s' = f s"
proof -
  from run obtain e1 s1 where
    pre: "run (set_supplied u pfm ppm pwm (case t of None \<Rightarrow> self_alphabet_type s | Some x \<Rightarrow> x) a
          @ fill_blanks u pfm ppm pwm bg pc) s = (e1, s1)"
    and err: "e1 \<noteq> None \<longrightarrow> e = e1 \<and> s' = s1"
    and ok: "e1 = None \<longrightarrow> run (derive_statistics u) s1 = (e, s')"
    by (rule update_pm_split)
  have a: "f s1 = f s" using fields(1-3) pre by (rule matrices_preserve)
  show ?thesis
  proof (cases e1)
    case None
    with ok have "run (derive_statistics u) s1 = (e, s')" by simp
    with fields(4-9) have "f s' = f s1" by (rule statistics_preserve)
    with a show ?thesis by simp
  next
    case (Some x)
    with err a show ?thesis by simp
  qed
qed

lemma derive_statistics_success:
  assumes "run (derive_statistics u) s = (None, s')"
  shows "self_alphabet_type s \<in> {''DNA'', ''RNA'', ''AA''}
         \<and> (\<exists>d p w. get_pm s = Some d \<and> self_ppm s = Some p \<and> self_pwm s = Some w
              \<and> self_width s' = Some (shape0 d)
              \<and> self_weight s' = Some (replicate (shape0 d) 1)
              \<and> self_ic s' = Some (mul_sum p w))
         \<and> self_pfm s' = self_pfm s \<and> self_ppm s' = self_ppm s \<and> self_pwm s' = self_pwm s
         \<and> self_default_pm s' = self_default_pm s"
  using assms
  by (auto simp: derive_statistics_def assign_def frame_of_def check_pseudocount_def
        compute_weight_def compute_ic_def recheck_pwm_def get_pm_def
      split: sum.splits option.splits if_splits pseudocount.splits pm_kind.splits)


lemma update_pm_success:
  assumes "update_pm u pfm ppm pwm bg pc t a s = (None, s')"
  shows "self_alphabet_type s \<in> {''DNA'', ''RNA'', ''AA''}
         \<and> (\<exists>d p w. get_pm s' = Some d \<and> self_ppm s' = Some p \<and> self_pwm s' = Some w
              \<and> self_width s' = Some (shape0 d)
              \<and> self_weight s' = Some (replicate (shape0 d) 1)
              \<and> self_ic s' = Some (mul_sum p w))"
proof -
  from assms obtain e1 s1 where
    pre: "run (set_supplied u pfm ppm pwm (case t of None \<Rightarrow> self_alphabet_type s | Some x \<Rightarrow> x) a
          @ fill_blanks u pfm ppm pwm bg pc) s = (e1, s1)"
    and err: "e1 \<noteq> None \<longrightarrow> None = e1 \<and> s' = s1"
    and ok: "e1 = None \<longrightarrow> run (derive_statistics u) s1 = (None, s')"
    by (rule update_pm_split)
  from err have "e1 = None" by auto
  with ok have st: "run (derive_statistics u) s1 = (None, s')" by simp
  have ty: "self_alphabet_type s1 = self_alphabet_type s"
    using pre by (rule matrices_preserve [rotated -1]) simp_all
  note fin = derive_statistics_success [OF st]
  from fin have "self_pfm s' = self_pfm s1" "self_ppm s' = self_ppm s1"
    "self_pwm s' = self_pwm s1" "self_default_pm s' = self_default_pm s1"
    by simp_all
  then have "get_pm s' = get_pm s1" by (simp add: get_pm_def split: pm_kind.splits)
  with fin ty show ?thesis by auto
qed

lemma first_supplied_fails:
  "pfm = Some src \<Longrightarrow> init_pm u (NdArray src) ''pfm'' atype a = Inl e0 \<Longrightarrow>
     run (set_supplied u pfm ppm pwm atype a @ rest) s = (Some e0, s)"
  "pfm = None \<Longrightarrow> ppm = Some src \<Longrightarrow> init_pm u (NdArray src) ''ppm'' atype a = Inl e0 \<Longrightarrow>
     run (set_supplied u pfm ppm pwm atype a @ rest) s = (Some e0, s)"
  "pfm = None \<Longrightarrow> ppm = None \<Longrightarrow> pwm = Some src \<Longrightarrow>
     init_pm u (NdArray src) ''pwm'' atype a = Inl e0 \<Longrightarrow>
     run (set_supplied u pfm ppm pwm atype a @ rest) s = (Some e0, s)"
  by (simp_all add: set_supplied_def when_stmt_def assign_def)

text \<open>
  What holds of every reconciliation that returns: the instance is over \<^verbatim>\<open>DNA\<close>,
  \<^verbatim>\<open>RNA\<close> or \<^verbatim>\<open>AA\<close>, its weight is a vector of ones as long as the canonical matrix,
  and its information content is \<^verbatim>\<open>(ppm * pwm).sum(axis=1)\<close> of the matrices it holds.
\<close>

lemma gapped_alphabet_never_reconciles:
  assumes "self_alphabet_type s \<notin> {''DNA'', ''RNA'', ''AA''}"
  shows "fst (update_pm u pfm ppm pwm bg pc t a s) \<noteq> None"
proof
  assume "fst (update_pm u pfm ppm pwm bg pc t a s) = None"
  then have "update_pm u pfm ppm pwm bg pc t a s
               = (None, snd (update_pm u pfm ppm pwm bg pc t a s))"
    by (simp add: prod_eq_iff)
  from update_pm_success [OF this] assms show False by simp
qed

text \<open>
  When the two matrices carry the same labels, \<^verbatim>\<open>(ppm * pwm).sum(axis=1)\<close> is the sum
  over all symbols of \<open>ppm[i,k] * pwm[i,k]\<close>, the general form of claim C1.
\<close>

lemma aligned_dot_same:
  assumes "distinct cs" and "length ra = length cs" and "length rb = length cs"
  shows "aligned_dot cs ra cs rb = sum_list (map2 (*) ra rb)"
  using assms
proof (induction cs arbitrary: ra rb)
  case Nil
  then show ?case by (simp add: aligned_dot_def)
next
  case (Cons c cs)
  then obtain x ra' y rb' where ra: "ra = x # ra'" and rb: "rb = y # rb'"
    by (cases ra; cases rb) auto
  have rest: "map (\<lambda>(c', x). case map_of ((c, y) # zip cs rb') c' of None \<Rightarrow> 0 | Some y \<Rightarrow> x * y)
                (zip cs ra')
            = map (\<lambda>(c', x). case map_of (zip cs rb') c' of None \<Rightarrow> 0 | Some y \<Rightarrow> x * y)
                (zip cs ra')"
  proof (rule map_cong [OF refl])
    fix p assume "p \<in> set (zip cs ra')"
    then have "(fst p, snd p) \<in> set (zip cs ra')" by simp
    then have "fst p \<in> set cs" by (rule set_zip_leftD)
    with Cons.prems(1) have "fst p \<noteq> c" by auto
    then show "(case p of (c', x) \<Rightarrow> case map_of ((c, y) # zip cs rb') c' of None \<Rightarrow> 0 | Some y \<Rightarrow> x * y)
             = (case p of (c', x) \<Rightarrow> case map_of (zip cs rb') c' of None \<Rightarrow> 0 | Some y \<Rightarrow> x * y)"
      by (cases p) simp
  qed
  have ih: "aligned_dot cs ra' cs rb' = sum_list (map2 (*) ra' rb')"
    using Cons.IH [of ra' rb'] Cons.prems ra rb by simp
  have "aligned_dot (c # cs) ra (c # cs) rb
          = x * y + sum_list (map (\<lambda>(c', x). case map_of ((c, y) # zip cs rb') c' of
                                      None \<Rightarrow> 0 | Some y \<Rightarrow> x * y) (zip cs ra'))"
    unfolding aligned_dot_def ra rb by simp
  also have "\<dots> = x * y + aligned_dot cs ra' cs rb'"
    unfolding rest aligned_dot_def ..
  also have "\<dots> = sum_list (map2 (*) ra rb)"
    unfolding ih ra rb by simp
  finally show ?case .
qed

lemma mul_sum_same_labels:
  assumes idx: "index a = index b" and cols: "columns a = columns b"
      and di: "distinct (index a)" and dc: "distinct (columns a)"
      and wa: "wf_frame a" and wb: "wf_frame b"
  shows "mul_sum a b = map2 (\<lambda>ra rb. sum_list (map2 (*) ra rb)) (vals a) (vals b)"
proof (rule nth_equalityI)
  have la: "length (vals a) = length (index a)" and lb: "length (vals b) = length (index a)"
    using wa wb idx by (simp_all add: wf_frame_def)
  have nofilter: "filter (\<lambda>l. l \<notin> set (index a)) (index b) = []"
    using idx by simp
  show len: "length (mul_sum a b)
          = length (map2 (\<lambda>ra rb. sum_list (map2 (*) ra rb)) (vals a) (vals b))"
    using la lb by (simp add: mul_sum_def nofilter)
  fix i assume "i < length (mul_sum a b)"
  then have i: "i < length (index a)" by (simp add: mul_sum_def nofilter)
  have ra: "lookup_row a (index a ! i) = Some (vals a ! i)"
    unfolding lookup_row_def using la di i by (intro map_of_zip_nth) simp_all
  have rb: "lookup_row b (index a ! i) = Some (vals b ! i)"
    unfolding lookup_row_def idx [symmetric] using lb di i by (intro map_of_zip_nth) simp_all
  have "length (vals a ! i) = length (columns a)" "length (vals b ! i) = length (columns a)"
    using wa wb cols la lb i by (simp_all add: wf_frame_def list_all_length)
  then have "aligned_dot (columns a) (vals a ! i) (columns b) (vals b ! i)
               = sum_list (map2 (*) (vals a ! i) (vals b ! i))"
    unfolding cols [symmetric] using dc by (intro aligned_dot_same) simp_all
  then show "mul_sum a b ! i = map2 (\<lambda>ra rb. sum_list (map2 (*) ra rb)) (vals a) (vals b) ! i"
    using i la lb ra rb by (simp add: mul_sum_def nofilter)
qed

lemma ic_general_form:
  assumes ok: "update_pm u pfm ppm pwm bg pc t a s = (None, s')"
      and p: "self_ppm s' = Some p" and w: "self_pwm s' = Some w"
      and labels: "index p = index w" "columns p = columns w"
      and dist: "distinct (index p)" "distinct (columns p)"
      and wf: "wf_frame p" "wf_frame w"
  shows "self_ic s' = Some (map2 (\<lambda>rp rw. sum_list (map2 (*) rp rw)) (vals p) (vals w))"
  using update_pm_success [OF ok] p w mul_sum_same_labels [OF labels dist wf] by auto

text \<open>
  Claim C9 has two parts.  The first holds (lemma \<open>update_pm_success\<close>): a reconciled
  set over \<^verbatim>\<open>DNA\<close>, \<^verbatim>\<open>RNA\<close> or \<^verbatim>\<open>AA\<close> has a weight of ones of length width.  The second
  says that over an alphabet ending in a gap symbol the weight of a row is its non-gap
  total divided by its total.  The code means to compute it, as
  \<^verbatim>\<open>self._get_pm[:,:-1].sum(axis=1)/self._get_pm.sum(axis=1)\<close>, but the canonical matrix is
  a data frame, on which the index \<^verbatim>\<open>[:,:-1]\<close> raises: over \<^verbatim>\<open>reduced DNA\<close> a set given
  all three matrices fails at the weight, and a set given one matrix fails before, in
  the conversion that validates against \<^verbatim>\<open>DNA\<close>.
\<close>

theorem gapped_alphabet_weight_raises:
  "fst (CompletePM (utils_std [])
         (Some [[1, 1, 0, 0, 0, 0]])
         (Some [[1 / 2, 1 / 2, 0, 0, 0, 0]])
         (Some [[0, 0, 0, 0, 0, 0]])
         None None ''reduced DNA'' None PPM) = Some TypeError
   \<and> fst (CompletePM (utils_std []) None
         (Some [[1 / 2, 1 / 2, 0, 0, 0, 0]]) None
         None None ''reduced DNA'' None PPM) = Some (ShapeError 4)"
  by (simp add: eval_update)

text \<open>
  Claim C1 says that the information content of every reconciled set is, row by row,
  the sum over the symbols \<open>k\<close> of \<open>ppm[i,k] * pwm[i,k]\<close>.  The code computes
  \<^verbatim>\<open>(self.ppm * self.pwm).sum(axis=1)\<close>, which pandas aligns on the column labels.  A
  probability matrix over \<^verbatim>\<open>RNA\<close> is labelled \<^verbatim>\<open>ACGU\<close>; the weight matrix derived from it
  by \<^verbatim>\<open>ppm2pwm\<close> is relabelled \<^verbatim>\<open>ACGT\<close>, because the conversion validates against the
  default alphabet.  The fourth symbol then has no partner and drops out of the sum:
  for the one-hot row \<open>0, 0, 0, 1\<close> the set is reconciled with information content 0,
  while the sum over the four symbols is greater than 2.
\<close>

theorem rna_ic_skips_last_symbol:
  "fst (CompletePM (utils_std []) None (Some [[0, 0, 0, 1]]) None
         None None ''RNA'' None PPM) = None
   \<and> self_ic (snd (CompletePM (utils_std []) None (Some [[0, 0, 0, 1]]) None
         None None ''RNA'' None PPM)) = Some [0]
   \<and> self_ppm (snd (CompletePM (utils_std []) None (Some [[0, 0, 0, 1]]) None
         None None ''RNA'' None PPM)) =
       Some \<lparr>index = [IntL 0], columns = map ChrL ''ACGU'', vals = [[0, 0, 0, 1]]\<rparr>
   \<and> self_pwm (snd (CompletePM (utils_std []) None (Some [[0, 0, 0, 1]]) None
         None None ''RNA'' None PPM)) =
       Some \<lparr>index = [IntL 0], columns = acgt,
             vals = [[log 2 (0 + 1 / 10 ^ 10) - log 2 (1 / 4),
                      log 2 (0 + 1 / 10 ^ 10) - log 2 (1 / 4),
                      log 2 (0 + 1 / 10 ^ 10) - log 2 (1 / 4),
                      log 2 (1 + 1 / 10 ^ 10) - log 2 (1 / 4)]]\<rparr>
   \<and> 2 < sum_list (map2 (*) [0, 0, 0, 1]
                 [log 2 (0 + 1 / 10 ^ 10) - log 2 (1 / 4),
                  log 2 (0 + 1 / 10 ^ 10) - log 2 (1 / 4),
                  log 2 (0 + 1 / 10 ^ 10) - log 2 (1 / 4),
                  log 2 (1 + 1 / 10 ^ 10) - log 2 (1 / 4 :: real)])"
proof -
  have "log 2 (1 / 4 :: real) = - 2"
    using log_powr_cancel [of 2 "-2"] by (simp add: powr_minus_divide)
  moreover have "0 < log 2 (1 + 1 / 10 ^ 10 :: real)" by simp
  ultimately have "2 < sum_list (map2 (*) [0, 0, 0, 1]
                 [log 2 (0 + 1 / 10 ^ 10) - log 2 (1 / 4),
                  log 2 (0 + 1 / 10 ^ 10) - log 2 (1 / 4),
                  log 2 (0 + 1 / 10 ^ 10) - log 2 (1 / 4),
                  log 2 (1 + 1 / 10 ^ 10) - log 2 (1 / 4 :: real)])"
    by simp
  moreover have "fst (CompletePM (utils_std []) None (Some [[0, 0, 0, 1]]) None
         None None ''RNA'' None PPM) = None
   \<and> self_ic (snd (CompletePM (utils_std []) None (Some [[0, 0, 0, 1]]) None
         None None ''RNA'' None PPM)) = Some [0]
   \<and> self_ppm (snd (CompletePM (utils_std []) None (Some [[0, 0, 0, 1]]) None
         None None ''RNA'' None PPM)) =
       Some \<lparr>index = [IntL 0], columns = map ChrL ''ACGU'', vals = [[0, 0, 0, 1]]\<rparr>
   \<and> self_pwm (snd (CompletePM (utils_std []) None (Some [[0, 0, 0, 1]]) None
         None None ''RNA'' None PPM)) =
       Some \<lparr>index = [IntL 0], columns = acgt,
             vals = [[log 2 (0 + 1 / 10 ^ 10) - log 2 (1 / 4),
                      log 2 (0 + 1 / 10 ^ 10) - log 2 (1 / 4),
                      log 2 (0 + 1 / 10 ^ 10) - log 2 (1 / 4),
                      log 2 (1 + 1 / 10 ^ 10) - log 2 (1 / 4)]]\<rparr>"
    by (simp add: eval_update acgt_def)
  ultimately show ?thesis by blast
qed

text \<open>
  Claim C5, as amended.  The claim has a failed reconciliation leave every attribute as
  it was.  \<^verbatim>\<open>_update_pm\<close> assigns its attributes one statement after the other and has
  nothing that restores them, so an exception leaves behind whatever was assigned
  before it.  For matrices supplied as arrays, what a failed call does leave as it was:
  the alphabet type, the alphabet, the pseudocount and the choice of the canonical
  matrix, always; and the whole instance, when the exception comes from orienting and
  validating the first array supplied, which is then the exception raised.  (A data
  frame supplied by the caller is relabelled in place before its rows are checked, so
  not even this holds of a frame the instance already holds.)
\<close>

theorem update_pm_failure_state:
  assumes fail: "update_pm u pfm ppm pwm bg pc t a s = (Some e, s')"
  shows "self_alphabet_type s' = self_alphabet_type s \<and> self_alphabet s' = self_alphabet s
         \<and> self_pseudocount s' = self_pseudocount s \<and> self_default_pm s' = self_default_pm s
         \<and> (\<forall>src e0. pfm = Some src
               \<and> init_pm u (NdArray src) ''pfm''
                    (case t of None \<Rightarrow> self_alphabet_type s | Some x \<Rightarrow> x) a = Inl e0
              \<longrightarrow> s' = s \<and> e = e0)
         \<and> (\<forall>src e0. pfm = None \<and> ppm = Some src
               \<and> init_pm u (NdArray src) ''ppm''
                    (case t of None \<Rightarrow> self_alphabet_type s | Some x \<Rightarrow> x) a = Inl e0
              \<longrightarrow> s' = s \<and> e = e0)
         \<and> (\<forall>src e0. pfm = None \<and> ppm = None \<and> pwm = Some src
               \<and> init_pm u (NdArray src) ''pwm''
                    (case t of None \<Rightarrow> self_alphabet_type s | Some x \<Rightarrow> x) a = Inl e0
              \<longrightarrow> s' = s \<and> e = e0)"
proof (intro conjI allI impI)
  show "self_alphabet_type s' = self_alphabet_type s"
    using fail by (rule update_pm_preserves [rotated -1]) simp_all
  show "self_alphabet s' = self_alphabet s"
    using fail by (rule update_pm_preserves [rotated -1]) simp_all
  show "self_pseudocount s' = self_pseudocount s"
    using fail by (rule update_pm_preserves [rotated -1]) simp_all
  show "self_default_pm s' = self_default_pm s"
    using fail by (rule update_pm_preserves [rotated -1]) simp_all
next
  fix src e0
  assume "pfm = Some src \<and> init_pm u (NdArray src) ''pfm''
            (case t of None \<Rightarrow> self_alphabet_type s | Some x \<Rightarrow> x) a = Inl e0"
  then have "update_pm u pfm ppm pwm bg pc t a s = (Some e0, s)"
    by (simp add: update_pm_def Let_def first_supplied_fails(1))
  with fail show "s' = s" "e = e0" by simp_all
next
  fix src e0
  assume "pfm = None \<and> ppm = Some src \<and> init_pm u (NdArray src) ''ppm''
            (case t of None \<Rightarrow> self_alphabet_type s | Some x \<Rightarrow> x) a = Inl e0"
  then have "update_pm u pfm ppm pwm bg pc t a s = (Some e0, s)"
    by (simp add: update_pm_def Let_def first_supplied_fails(2))
  with fail show "s' = s" "e = e0" by simp_all
next
  fix src e0
  assume "pfm = None \<and> ppm = None \<and> pwm = Some src \<and> init_pm u (NdArray src) ''pwm''
            (case t of None \<Rightarrow> self_alphabet_type s | Some x \<Rightarrow> x) a = Inl e0"
  then have "update_pm u pfm ppm pwm bg pc t a s = (Some e0, s)"
    by (simp add: update_pm_def Let_def first_supplied_fails(3))
  with fail show "s' = s" "e = e0" by simp_all
qed

text \<open>
  Three failed calls on a new instance, one for each matrix that can come first: a
  table of three columns fits \<^verbatim>\<open>DNA\<close> in neither orientation.
\<close>

theorem update_pm_failure_state_witness:
  "update_pm (utils_std []) (Some [[1, 2, 3]]) None None None None None None
      (new_cpm None None ''DNA'' None PPM) =
     (Some (ShapeError 4), new_cpm None None ''DNA'' None PPM)
   \<and> update_pm (utils_std []) None (Some [[1, 2, 3]]) None None None None None
      (new_cpm None None ''DNA'' None PPM) =
     (Some (ShapeError 4), new_cpm None None ''DNA'' None PPM)
   \<and> update_pm (utils_std []) None None (Some [[1, 2, 3]]) None None None None
      (new_cpm None None ''DNA'' None PPM) =
     (Some (ShapeError 4), new_cpm None None ''DNA'' None PPM)"
proof -
  let ?u = "utils_std []"
  let ?s = "new_cpm None None ''DNA'' None PPM"
  let ?src = "[[1, 2, 3]] :: ndarray"
  have ty: "(case None of None \<Rightarrow> self_alphabet_type ?s | Some x \<Rightarrow> x) = ''DNA''"
    by (simp add: new_cpm_def)
  have bad: "init_pm ?u (NdArray ?src) k ''DNA'' None = Inl (ShapeError 4)" for k
    by (simp add: eval_init_pm)
  obtain e1 s1 where r1: "update_pm ?u (Some ?src) None None None None None None ?s = (e1, s1)"
    by (cases "update_pm ?u (Some ?src) None None None None None None ?s")
  obtain e2 s2 where r2: "update_pm ?u None (Some ?src) None None None None None ?s = (e2, s2)"
    by (cases "update_pm ?u None (Some ?src) None None None None None ?s")
  obtain e3 s3 where r3: "update_pm ?u None None (Some ?src) None None None None ?s = (e3, s3)"
    by (cases "update_pm ?u None None (Some ?src) None None None None ?s")
  have "e1 \<noteq> None" "e2 \<noteq> None" "e3 \<noteq> None"
    using r1 r2 r3 bad
    by (auto simp: update_pm_def Let_def set_supplied_def when_stmt_def assign_def new_cpm_def)
  then obtain x1 x2 x3 where e: "e1 = Some x1" "e2 = Some x2" "e3 = Some x3" by auto
  from update_pm_failure_state [OF r1 [unfolded e]] bad [of "''pfm''"] ty
  have "s1 = ?s \<and> x1 = ShapeError 4" by simp
  moreover from update_pm_failure_state [OF r2 [unfolded e]] bad [of "''ppm''"] ty
  have "s2 = ?s \<and> x2 = ShapeError 4" by simp
  moreover from update_pm_failure_state [OF r3 [unfolded e]] bad [of "''pwm''"] ty
  have "s3 = ?s \<and> x3 = ShapeError 4" by simp
  ultimately show ?thesis using r1 r2 r3 e by simp
qed

text \<open>
  The claim as stated fails: a reconciled set over \<^verbatim>\<open>DNA\<close> is given a new frequency
  matrix together with a probability matrix whose row sums to 4.  The call raises the
  normalization error and the set keeps the new frequency matrix.
\<close>

theorem failed_update_keeps_new_pfm:
  "fst (CompletePM (utils_std []) None (Some [[1 / 4, 1 / 4, 1 / 4, 1 / 4]]) None
          None None ''DNA'' None PPM) = None
   \<and> self_pfm (snd (CompletePM (utils_std []) None
          (Some [[1 / 4, 1 / 4, 1 / 4, 1 / 4]]) None None None ''DNA'' None PPM)) =
       Some \<lparr>index = [IntL 0], columns = acgt, vals = [[25, 25, 25, 25]]\<rparr>
   \<and> fst (update_pm (utils_std [])
            (Some [[1, 0, 0, 0]]) (Some [[1, 1, 1, 1]]) None
            None None None None
            (snd (CompletePM (utils_std []) None
               (Some [[1 / 4, 1 / 4, 1 / 4, 1 / 4]]) None None None ''DNA'' None PPM))) =
       Some NormalizationError
   \<and> self_pfm (snd (update_pm (utils_std [])
            (Some [[1, 0, 0, 0]]) (Some [[1, 1, 1, 1]]) None
            None None None None
            (snd (CompletePM (utils_std []) None
               (Some [[1 / 4, 1 / 4, 1 / 4, 1 / 4]]) None None None ''DNA'' None PPM)))) =
       Some \<lparr>index = [IntL 0], columns = acgt, vals = [[1, 0, 0, 0]]\<rparr>"
  by (simp add: eval_update acgt_def)


end
